theory Spec2Isabelle
  imports Main "HOL-Library.AList" "HOL-Library.Sublist"
begin

section \<open>Session layer (package session)\<close>

text \<open>
  A connection is a pointer \<^verbatim>\<open>*connection.IRODSConnection\<close>; only its identity matters
  to the session, so it is a number. The pointer \<^verbatim>\<open>nil\<close> is \<open>None\<close> of \<open>conn option\<close>
  wherever the source can see it.
\<close>

type_synonym conn = nat

text \<open>
  Go errors. \<open>ErrConnectionPoolFull\<close> is the sentinel the session compares against,
  \<open>io_EOF\<close> is \<^verbatim>\<open>io.EOF\<close>,
  \<open>ErrExternal\<close> is an error produced by a collaborator that is not part of this
  development (pool, connection, operating system), \<open>ErrMsg\<close> is
  \<^verbatim>\<open>fmt.Errorf\<close>/\<^verbatim>\<open>xerrors.Errorf\<close> with a plain message and \<open>ErrWrap\<close> is
  \<^verbatim>\<open>xerrors.Errorf("...: %w", err)\<close>.
\<close>

datatype error =
    ErrConnectionPoolFull
  | io_EOF
  | ErrExternal string
  | ErrMsg string
  | ErrWrap string error

record IRODSAccount =
  ClientUser :: string
  DefaultResource :: string

record IRODSSessionConfig =
  StartNewTransaction :: bool
  ConnectionMaxNumber :: int

text \<open>
  The connection pool is an external collaborator. The session model records the calls
  it makes on the pool, in order; what the pool answers is an input of each operation.
\<close>

datatype pool_call =
    PoolGet
  | PoolGetNew
  | PoolDiscard conn
  | PoolReturn conn
  | PoolRelease

text \<open>
  \<^verbatim>\<open>sharedConnections map[*connection.IRODSConnection]int\<close> is an association list with
  distinct keys. Go visits a map in an unspecified order; the order of the list is the
  order in which a \<^verbatim>\<open>range\<close> over the map visits it, and the theorems hold for every
  such list. \<open>connectionPoolFailures\<close> is the metrics counter touched by
  \<^verbatim>\<open>IncreaseCounterForConnectionPoolFailures\<close>.
\<close>

record IRODSSession =
  account :: IRODSAccount
  config :: IRODSSessionConfig
  connectionPool :: "pool_call list"
  sharedConnections :: "(conn \<times> int) list"
  startNewTransaction :: bool
  poormansRollbackFail :: bool
  connectionPoolFailures :: nat

text \<open>
  What the pool and the connection answer during one acquisition:
  \<^verbatim>\<open>AvailableConnections()\<close>, \<^verbatim>\<open>Get()\<close> (connection and is-new flag),
  \<^verbatim>\<open>PoorMansRollback()\<close> on the connection obtained, \<^verbatim>\<open>GetNew()\<close> and
  \<^verbatim>\<open>Return(conn)\<close>.
\<close>

record pool_env =
  poolAvailable :: int
  poolGetResult :: "error + conn \<times> bool"
  rollbackResult :: "error option"
  poolGetNewResult :: "error + conn"
  poolReturnResult :: "error option"

definition poolCall :: "pool_call \<Rightarrow> IRODSSession \<Rightarrow> IRODSSession" where
  "poolCall c sess = sess\<lparr>connectionPool := connectionPool sess @ [c]\<rparr>"

subsection \<open>NewIRODSSession\<close>

text \<open>
  \<open>newPool\<close> is the error of \<^verbatim>\<open>NewConnectionPool\<close> (if any), \<open>testGet\<close> the result of the
  \<^verbatim>\<open>pool.Get()\<close> of the rollback probe and \<open>testRollback\<close> the result of the probe itself.
\<close>

definition NewIRODSSession ::
  "IRODSAccount \<Rightarrow> IRODSSessionConfig \<Rightarrow> error option \<Rightarrow> (error + conn \<times> bool) \<Rightarrow> error option
     \<Rightarrow> error + IRODSSession" where
  "NewIRODSSession acct cfg newPool testGet testRollback =
     (let sess = \<lparr>account = acct, config = cfg, connectionPool = [],
                  sharedConnections = [],
                  startNewTransaction = StartNewTransaction cfg,
                  poormansRollbackFail = False,
                  connectionPoolFailures = 0\<rparr>
      in case newPool of
           Some err \<Rightarrow> Inl err
         | None \<Rightarrow>
            (let sess1 = (if ClientUser (account sess) = ''anonymous''
                          then sess\<lparr>startNewTransaction := False, poormansRollbackFail := True\<rparr>
                          else sess)
             in if startNewTransaction sess1
                then (case testGet of
                        Inl err \<Rightarrow> Inl err
                      | Inr (c, isNew) \<Rightarrow>
                         (case testRollback of
                            Some err \<Rightarrow>
                              Inr ((poolCall (PoolDiscard c) (poolCall PoolGet sess1))
                                     \<lparr>poormansRollbackFail := True\<rparr>)
                          | None \<Rightarrow> Inr (poolCall (PoolReturn c) (poolCall PoolGet sess1))))
                else Inr sess1))"

subsection \<open>getConnectionFromPool\<close>

definition getConnectionFromPool ::
  "pool_env \<Rightarrow> IRODSSession \<Rightarrow> (error + conn) \<times> IRODSSession" where
  "getConnectionFromPool env sess =
     (let sess1 = poolCall PoolGet sess
      in case poolGetResult env of
           Inl err \<Rightarrow> (Inl err, sess1)
         | Inr (c, isNewConn) \<Rightarrow>
             if startNewTransaction sess1 \<and> \<not> isNewConn
             then (if poormansRollbackFail sess1
                   then (let sess2 = poolCall PoolGetNew (poolCall (PoolDiscard c) sess1)
                         in case poolGetNewResult env of
                              Inl err \<Rightarrow> (Inl err, sess2)
                            | Inr c' \<Rightarrow> (Inr c', sess2))
                   else (case rollbackResult env of
                           Some err \<Rightarrow>
                             (let sess2 = poolCall PoolGetNew
                                            ((poolCall (PoolDiscard c) sess1)
                                               \<lparr>poormansRollbackFail := True\<rparr>)
                              in case poolGetNewResult env of
                                   Inl err' \<Rightarrow> (Inl err', sess2)
                                 | Inr c' \<Rightarrow> (Inr c', sess2))
                         | None \<Rightarrow> (Inr c, sess1)))
             else (Inr c, sess1))"

subsection \<open>AcquireConnection\<close>

text \<open>
  \<^verbatim>\<open>if shares, ok := sess.sharedConnections[conn]; ok { shares++; ... } else { ... = 1 }\<close>
\<close>

definition putToShare :: "conn \<Rightarrow> (conn \<times> int) list \<Rightarrow> (conn \<times> int) list" where
  "putToShare c m =
     (case map_of m c of
        Some shares \<Rightarrow> AList.update c (shares + 1) m
      | None \<Rightarrow> AList.update c 1 m)"

text \<open>
  The scan for the connection with the minimum share count, with its
  \<^verbatim>\<open>break\<close> as soon as \<^verbatim>\<open>minShare == 1\<close>. The arguments are the entries still to be
  visited and the current \<^verbatim>\<open>minShare\<close> and \<^verbatim>\<open>minShareConn\<close>.
\<close>

fun minShareScan :: "(conn \<times> int) list \<Rightarrow> int \<Rightarrow> conn option \<Rightarrow> int \<times> conn option" where
  "minShareScan [] minShare minShareConn = (minShare, minShareConn)"
| "minShareScan ((sharedConn, shareCount) # rest) minShare minShareConn =
     (let (minShare1, minShareConn1) =
            (if minShare = 0 \<or> shareCount < minShare
             then (shareCount, Some sharedConn)
             else (minShare, minShareConn))
      in if minShare1 = 1 then (minShare1, minShareConn1)
         else minShareScan rest minShare1 minShareConn1)"

definition shareInUse :: "IRODSSession \<Rightarrow> (error + conn) \<times> IRODSSession" where
  "shareInUse sess =
     (case minShareScan (sharedConnections sess) 0 None of
        (minShare, None) \<Rightarrow>
          (Inl (ErrMsg ''failed to get a shared connection''),
           sess\<lparr>connectionPoolFailures := connectionPoolFailures sess + 1\<rparr>)
      | (minShare, Some minShareConn) \<Rightarrow>
          (Inr minShareConn,
           sess\<lparr>sharedConnections :=
                  AList.update minShareConn (minShare + 1) (sharedConnections sess)\<rparr>))"

definition AcquireConnection ::
  "pool_env \<Rightarrow> IRODSSession \<Rightarrow> (error + conn) \<times> IRODSSession" where
  "AcquireConnection env sess =
     (if poolAvailable env > 0
      then (case getConnectionFromPool env sess of
              (Inl err, sess1) \<Rightarrow> shareInUse sess1
            | (Inr c, sess1) \<Rightarrow>
                (Inr c, sess1\<lparr>sharedConnections := putToShare c (sharedConnections sess1)\<rparr>))
      else shareInUse sess)"

subsection \<open>ReturnConnection and DiscardConnection\<close>

text \<open>The result is the returned error (\<open>None\<close> is \<^verbatim>\<open>nil\<close>) and the session afterwards.\<close>

definition ReturnConnection ::
  "pool_env \<Rightarrow> conn \<Rightarrow> IRODSSession \<Rightarrow> error option \<times> IRODSSession" where
  "ReturnConnection env c sess =
     (case map_of (sharedConnections sess) c of
        Some share0 \<Rightarrow>
          (let share = share0 - 1
           in if share \<le> 0
              then (let sess1 = sess\<lparr>sharedConnections := AList.delete c (sharedConnections sess)\<rparr>
                    in if startNewTransaction sess1 \<and> poormansRollbackFail sess1
                       then (None, poolCall (PoolDiscard c) sess1)
                       else (case poolReturnResult env of
                               Some err \<Rightarrow> (Some err, poolCall (PoolReturn c) sess1)
                             | None \<Rightarrow> (None, poolCall (PoolReturn c) sess1)))
              else (None, sess\<lparr>sharedConnections := AList.update c share (sharedConnections sess)\<rparr>))
      | None \<Rightarrow> (None, sess))"

definition DiscardConnection :: "conn \<Rightarrow> IRODSSession \<Rightarrow> error option \<times> IRODSSession" where
  "DiscardConnection c sess =
     (case map_of (sharedConnections sess) c of
        Some share0 \<Rightarrow>
          (let share = share0 - 1
           in if share \<le> 0
              then (None, poolCall (PoolDiscard c)
                            (sess\<lparr>sharedConnections := AList.delete c (sharedConnections sess)\<rparr>))
              else (None, sess\<lparr>sharedConnections := AList.update c share (sharedConnections sess)\<rparr>))
      | None \<Rightarrow> (None, sess))"

subsection \<open>AcquireConnectionsMulti\<close>

text \<open>
  \<^verbatim>\<open>connections := map[*connection.IRODSConnection]bool{}\<close> is used as a set; it is a
  list without duplicates here and \<^verbatim>\<open>connections[conn] = true\<close> is \<open>List.insert\<close>.

  The first loop, \<^verbatim>\<open>for i := 0; i < number; i++\<close>: \<open>i\<close> is the loop counter and the
  second numeric argument is the number of iterations still to run, \<open>number - i\<close>.
  \<open>envs i\<close> is what the pool answers in iteration \<open>i\<close>.
\<close>

fun poolPhase ::
  "(nat \<Rightarrow> pool_env) \<Rightarrow> nat \<Rightarrow> nat \<Rightarrow> IRODSSession \<Rightarrow> conn list \<Rightarrow> IRODSSession \<times> conn list" where
  "poolPhase envs i 0 sess connections = (sess, connections)"
| "poolPhase envs i (Suc k) sess connections =
     (if poolAvailable (envs i) > 0
      then (case getConnectionFromPool (envs i) sess of
              (Inl err, sess1) \<Rightarrow> (sess1, connections)
            | (Inr c, sess1) \<Rightarrow>
                poolPhase envs (Suc i) k
                  (sess1\<lparr>sharedConnections := putToShare c (sharedConnections sess1)\<rparr>)
                  (List.insert c connections))
      else (sess, connections))"

text \<open>
  One pass of the inner loop \<^verbatim>\<open>for sharedConn, shareCount := range sess.sharedConnections\<close>.
  The first argument is the part of the map still to be visited; the pass only updates
  values of keys that exist, so every key is visited once with its current count.
\<close>

fun shareRound ::
  "(conn \<times> int) list \<Rightarrow> int \<Rightarrow> (conn \<times> int) list \<Rightarrow> conn list
     \<Rightarrow> int \<times> (conn \<times> int) list \<times> conn list" where
  "shareRound [] connectionsInNeed shared connections = (connectionsInNeed, shared, connections)"
| "shareRound ((sharedConn, shareCount) # rest) connectionsInNeed shared connections =
     (let shared1 = AList.update sharedConn (shareCount + 1) shared;
          connections1 = List.insert sharedConn connections;
          need1 = connectionsInNeed - 1
      in if need1 \<le> 0 then (need1, shared1, connections1)
         else shareRound rest need1 shared1 connections1)"

text \<open>
  The outer loop \<^verbatim>\<open>for connectionsInNeed > 0 { ... }\<close>. It has no other exit, so it is a
  partial function: \<open>None\<close> means that the loop never ends.
\<close>

partial_function (option) shareLoop ::
  "int \<Rightarrow> (conn \<times> int) list \<Rightarrow> conn list \<Rightarrow> ((conn \<times> int) list \<times> conn list) option" where
  "shareLoop connectionsInNeed shared connections =
     (if connectionsInNeed > 0
      then (case shareRound shared connectionsInNeed shared connections of
              (need1, shared1, connections1) \<Rightarrow> shareLoop need1 shared1 connections1)
      else Some (shared, connections))"

text \<open>
  The whole function. \<open>None\<close>: the call never returns. Otherwise the returned pair
  \<^verbatim>\<open>(acquiredConnections, nil)\<close> and the session afterwards.
\<close>

definition AcquireConnectionsMulti ::
  "(nat \<Rightarrow> pool_env) \<Rightarrow> int \<Rightarrow> IRODSSession \<Rightarrow> ((error + conn list) \<times> IRODSSession) option" where
  "AcquireConnectionsMulti envs number sess =
     (case poolPhase envs 0 (nat number) sess [] of
        (sess1, connections) \<Rightarrow>
          (case shareLoop (number - int (length connections)) (sharedConnections sess1) connections of
             None \<Rightarrow> None
           | Some (shared, connections1) \<Rightarrow>
               Some (Inr connections1, sess1\<lparr>sharedConnections := shared\<rparr>)))"


section \<open>Transfer engine (package fs): download workers\<close>

text \<open>
  A call either returns, or never returns (\<open>Blocked\<close>: it waits for an answer that
  does not come, or spins), or panics.
\<close>

datatype 'a outcome = Returned 'a | Blocked | Panicked

text \<open>
  What a worker does to its collaborators, in order. Remote calls carry the connection
  they are made on. \<open>EvWriteAt off n\<close> is a successful \<^verbatim>\<open>f.WriteAt\<close> of \<open>n\<close> bytes at
  offset \<open>off\<close> of the local file, \<open>EvWriteStatus s l c\<close> the journal entry
  \<^verbatim>\<open>{StartOffset: s, Length: l, CompletedLength: c}\<close> handed to \<^verbatim>\<open>WriteStatus\<close>,
  \<open>EvEnqueue e\<close> is \<^verbatim>\<open>errChan <- e\<close>. \<^verbatim>\<open>ReturnConnection\<close> can be called with the
  \<^verbatim>\<open>nil\<close> pointer, which is \<open>None\<close>. The last six events belong to the upload worker:
  \<open>EvWrite c off n\<close> is a successful \<^verbatim>\<open>WriteDataObjectWithTrackerCallBack\<close> of \<open>n\<close>
  bytes on a replica handle whose position is \<open>off\<close>.
\<close>

datatype event =
    EvOpenDataObject conn
  | EvSeekDataObject conn int
  | EvLocalSeek int
  | EvRead conn int
  | EvWriteAt int int
  | EvWriteAtFailed int int
  | EvWriteStatus int int int
  | EvCloseDataObject conn
  | EvReturnConnection "conn option"
  | EvAcquireConnection
  | EvEnqueue error
  | EvAcquireUnmanagedConnection
  | EvDiscardConnection "conn option"
  | EvOpenReplica conn
  | EvWrite conn int int
  | EvWriteFailed conn int int
  | EvCloseReplica conn

text \<open>
  The answers a worker gets. One \<open>chunk_env\<close> per iteration of the copy loop: the
  result \<^verbatim>\<open>(bytesRead, readErr)\<close> of \<^verbatim>\<open>ReadDataObjectWithTrackerCallBack\<close>, the error
  of \<^verbatim>\<open>f.WriteAt\<close> (consulted only when bytes were read) and whether
  \<^verbatim>\<open>len(errChan) > 0\<close> holds at the end of the iteration.
\<close>

record chunk_env =
  bytesRead :: int
  readErr :: "error option"
  writeErr :: "error option"
  othersFailed :: bool

text \<open>
  One \<open>trial_env\<close> per call of \<^verbatim>\<open>trial\<close>: the error of \<^verbatim>\<open>OpenDataObject\<close>, the results
  of \<^verbatim>\<open>SeekDataObject\<close> and \<^verbatim>\<open>f.Seek\<close>, the answers to the reads of the copy loop,
  \<^verbatim>\<open>IsSocketFailed()\<close> and \<^verbatim>\<open>IsConnected()\<close> of the connection when the trial is over,
  and, for the retry, the result of \<^verbatim>\<open>session.AcquireConnection()\<close> and
  \<^verbatim>\<open>IsConnected()\<close> of the connection it gave.
\<close>

record trial_env =
  openResult :: "error option"
  seekResult :: "error + int"
  localSeekResult :: "error + int"
  chunks :: "chunk_env list"
  socketFailed :: bool
  stillConnected :: bool
  acquireResult :: "error + conn option"
  acquiredConnected :: bool

text \<open>
  The two download functions define the same worker closure but for the resume journal;
  \<open>resumable\<close> tells which of the two is meant. \<open>bufferSize\<close> is
  \<^verbatim>\<open>common.ReadWriteBufferSize\<close>, a constant that is not part of the sources.
  The progress callback, the shared byte counter and the logger do not influence the
  control flow and are left out.
\<close>

record task_params =
  resumable :: bool
  bufferSize :: int
  taskID :: nat
  taskOffset :: int
  taskLength :: int

text \<open>The variables captured by \<^verbatim>\<open>trial\<close>, and the events so far.\<close>

record worker_state =
  lastOffset :: int
  taskRemain :: int
  events :: "event list"

definition emit :: "event \<Rightarrow> worker_state \<Rightarrow> worker_state" where
  "emit e st = st\<lparr>events := events st @ [e]\<rparr>"

text \<open>The body of \<^verbatim>\<open>if bytesRead > 0 { ... }\<close> after a successful \<^verbatim>\<open>WriteAt\<close>.\<close>

definition chunkWritten :: "task_params \<Rightarrow> int \<Rightarrow> worker_state \<Rightarrow> worker_state" where
  "chunkWritten p n st =
     (let st1 = emit (EvWriteAt (taskOffset p + (taskLength p - taskRemain st)) n) st;
          st2 = (if resumable p
                 then emit (EvWriteStatus (taskOffset p) (taskLength p)
                              ((taskLength p - taskRemain st) + n)) st1
                 else st1)
      in st2\<lparr>taskRemain := taskRemain st - n, lastOffset := lastOffset st + n\<rparr>)"

text \<open>
  The copy loop \<^verbatim>\<open>for taskRemain > 0 { ... }\<close> of \<^verbatim>\<open>trial\<close>. The list holds the answers
  to the reads still to come; a read that gets no answer blocks.
\<close>

fun copyLoop ::
  "task_params \<Rightarrow> conn \<Rightarrow> chunk_env list \<Rightarrow> worker_state \<Rightarrow> error option outcome \<times> worker_state" where
  "copyLoop p c [] st = (if taskRemain st > 0 then (Blocked, st) else (Returned None, st))"
| "copyLoop p c (e # rest) st =
     (if taskRemain st > 0
      then (let bufferLen = (if taskRemain st < bufferSize p then taskRemain st else bufferSize p);
                st1 = emit (EvRead c bufferLen) st
            in case (if bytesRead e > 0 then writeErr e else None) of
                 Some taskWriteErr \<Rightarrow>
                   (Returned (Some (ErrWrap ''failed to write to file'' taskWriteErr)),
                    emit (EvWriteAtFailed (taskOffset p + (taskLength p - taskRemain st)) (bytesRead e)) st1)
               | None \<Rightarrow>
                   (let st2 = (if bytesRead e > 0 then chunkWritten p (bytesRead e) st1 else st1)
                    in case readErr e of
                         Some err \<Rightarrow>
                           if err = io_EOF then (Returned None, st2)
                           else (Returned (Some (ErrWrap ''failed to read from data object'' err)), st2)
                       | None \<Rightarrow>
                           if othersFailed e
                           then (Returned (Some (ErrMsg ''stop running as other tasks failed'')), st2)
                           else copyLoop p c rest st2))
      else (Returned None, st))"

text \<open>
  \<^verbatim>\<open>trial\<close>: open, seek both sides to \<^verbatim>\<open>lastOffset\<close> when it is positive, copy; the
  deferred \<^verbatim>\<open>CloseDataObject\<close> runs when the trial returns.
\<close>

definition trial ::
  "task_params \<Rightarrow> conn \<Rightarrow> trial_env \<Rightarrow> worker_state \<Rightarrow> error option outcome \<times> worker_state" where
  "trial p c env st =
     (let st1 = emit (EvOpenDataObject c) st
      in case openResult env of
           Some openErr \<Rightarrow> (Returned (Some openErr), st1)
         | None \<Rightarrow>
            (let (r, st5) =
                   (if lastOffset st1 > 0
                    then (let st2 = emit (EvSeekDataObject c (lastOffset st1)) st1
                          in case seekResult env of
                               Inl seekErr \<Rightarrow>
                                 (Returned (Some (ErrWrap ''failed to seek data object'' seekErr)), st2)
                             | Inr newOffset \<Rightarrow>
                                 (let st3 = emit (EvLocalSeek (lastOffset st1)) st2
                                  in case localSeekResult env of
                                       Inl localSeekErr \<Rightarrow>
                                         (Returned (Some (ErrWrap ''failed to seek file'' localSeekErr)), st3)
                                     | Inr taskNewOffset \<Rightarrow>
                                         if newOffset \<noteq> taskNewOffset
                                         then (Returned (Some (ErrMsg
                                                 ''failed to seek file and data object to target offset'')), st3)
                                         else copyLoop p c (chunks env) st3))
                    else copyLoop p c (chunks env) st1)
             in case r of
                  Returned res \<Rightarrow>
                    (r, if \<not> socketFailed env \<and> stillConnected env
                        then emit (EvCloseDataObject c) st5 else st5)
                | Blocked \<Rightarrow> (r, st5)
                | Panicked \<Rightarrow> (r, st5)))"

text \<open>
  The loop \<^verbatim>\<open>for { trialErr := trial(taskConn) ... }\<close>. The list holds the environments
  of the trials still to come. The value returned is \<^verbatim>\<open>taskConn\<close> as it stands when
  the worker function returns (the deferred \<^verbatim>\<open>ReturnConnection\<close> uses it).
\<close>

fun retryLoop ::
  "task_params \<Rightarrow> conn \<Rightarrow> trial_env list \<Rightarrow> worker_state \<Rightarrow> conn option outcome \<times> worker_state" where
  "retryLoop p taskConn [] st = (Blocked, st)"
| "retryLoop p taskConn (env # rest) st =
     (case trial p taskConn env st of
        (Blocked, st1) \<Rightarrow> (Blocked, st1)
      | (Panicked, st1) \<Rightarrow> (Panicked, st1)
      | (Returned None, st1) \<Rightarrow> (Returned (Some taskConn), st1)
      | (Returned (Some trialErr), st1) \<Rightarrow>
          if socketFailed env
          then (let st2 = emit EvAcquireConnection (emit (EvReturnConnection (Some taskConn)) st1)
                in case acquireResult env of
                     Inl connErr \<Rightarrow>
                       (Returned None, emit (EvEnqueue (ErrWrap ''failed to get connection'' connErr)) st2)
                   | Inr None \<Rightarrow>
                       (Returned None, emit (EvEnqueue (ErrMsg ''connection is nil or disconnected'')) st2)
                   | Inr (Some newConn) \<Rightarrow>
                       if \<not> acquiredConnected env
                       then (Returned (Some newConn),
                             emit (EvEnqueue (ErrMsg ''connection is nil or disconnected'')) st2)
                       else retryLoop p newConn rest st2)
          else (Returned (Some taskConn), emit (EvEnqueue trialErr) st1))"

text \<open>
  The resume journal as the worker sees it: \<^verbatim>\<open>StatusMap\<close> maps the start offset of a
  task to its last entry.
\<close>

record DataObjectTransferStatusEntry =
  StartOffset :: int
  Length :: int
  CompletedLength :: int

record DataObjectTransferStatus =
  Threads :: int
  StatusMap :: "int \<rightharpoonup> DataObjectTransferStatusEntry"

text \<open>
  What the worker finds before its first trial: \<^verbatim>\<open>IsConnected()\<close> of the connection it
  was given, the error of \<^verbatim>\<open>os.OpenFile(localPath, os.O_WRONLY, 0)\<close>, and the trials.
\<close>

record task_env =
  connConnected :: bool
  localOpenResult :: "error option"
  trials :: "trial_env list"

text \<open>
  \<^verbatim>\<open>downloadTask\<close>. \<open>status\<close> is \<^verbatim>\<open>transferStatusLocal.GetStatus()\<close>, which can be
  \<^verbatim>\<open>nil\<close>; it is consulted by the resumable download only. \<^verbatim>\<open>connections[taskID]\<close>
  panics when the index is out of range. The result is the list of the worker's events,
  the deferred \<^verbatim>\<open>ReturnConnection(taskConn)\<close> last.
\<close>

definition downloadTask ::
  "task_params \<Rightarrow> DataObjectTransferStatus option \<Rightarrow> conn list \<Rightarrow> task_env \<Rightarrow> event list outcome" where
  "downloadTask p status connections env =
     (if taskID p \<ge> length connections then Panicked
      else (let taskConn = connections ! taskID p
            in if \<not> connConnected env
               then Returned [EvEnqueue (ErrMsg ''connection is nil or disconnected''),
                              EvReturnConnection (Some taskConn)]
               else (case localOpenResult env of
                       Some openErr \<Rightarrow>
                         Returned [EvEnqueue (ErrWrap ''failed to open file'' openErr),
                                   EvReturnConnection (Some taskConn)]
                     | None \<Rightarrow>
                        (let lastOffset0 =
                               (if resumable p
                                then (case status of
                                        None \<Rightarrow> taskOffset p
                                      | Some transferStatus \<Rightarrow>
                                          (case StatusMap transferStatus (taskOffset p) of
                                             Some entry \<Rightarrow> StartOffset entry + CompletedLength entry
                                           | None \<Rightarrow> taskOffset p))
                                else taskOffset p);
                             taskRemain0 =
                               (if resumable p then taskLength p - (lastOffset0 - taskOffset p)
                                else taskLength p)
                         in case retryLoop p taskConn (trials env)
                                   \<lparr>lastOffset = lastOffset0, taskRemain = taskRemain0, events = []\<rparr> of
                              (Returned finalConn, st) \<Rightarrow>
                                Returned (events st @ [EvReturnConnection finalConn])
                            | (Blocked, st) \<Rightarrow> Blocked
                            | (Panicked, st) \<Rightarrow> Panicked))))"

text \<open>The errors a worker has put on \<^verbatim>\<open>errChan\<close>.\<close>

fun enqueued :: "event list \<Rightarrow> error list" where
  "enqueued [] = []"
| "enqueued (EvEnqueue e # evs) = e # enqueued evs"
| "enqueued (ev # evs) = enqueued evs"


section \<open>Transfer engine (package fs): partition into tasks and upload workers\<close>

text \<open>
  \<^verbatim>\<open>int64\<close> and \<^verbatim>\<open>int\<close> values are integers here. Every offset and length that the
  partition and the workers compute lies between 0 and \<open>fileLength + numTasks\<close>, which
  is below \<open>2^63\<close> for every transfer that can be started (one goroutine per task), so
  no operation wraps. Go's \<^verbatim>\<open>/\<close> and \<^verbatim>\<open>%\<close> truncate towards zero.
\<close>

definition go_div :: "int \<Rightarrow> int \<Rightarrow> int" where
  "go_div a b = sgn a * sgn b * (\<bar>a\<bar> div \<bar>b\<bar>)"

definition go_mod :: "int \<Rightarrow> int \<Rightarrow> int" where
  "go_mod a b = sgn a * (\<bar>a\<bar> mod \<bar>b\<bar>)"

text \<open>
  \<^verbatim>\<open>lengthPerThread := fileLength / int64(numTasks);
  if fileLength%int64(numTasks) > 0 { lengthPerThread++ }\<close>
\<close>

definition lengthPerThread :: "int \<Rightarrow> int \<Rightarrow> int" where
  "lengthPerThread fileLength numTasks =
     (if go_mod fileLength numTasks > 0 then go_div fileLength numTasks + 1
      else go_div fileLength numTasks)"

text \<open>
  The loop \<^verbatim>\<open>for i := 0; i < numTasks; i++ { go task(i, offset, lengthPerThread);
  offset += lengthPerThread }\<close>, with the loop counter, the number of iterations still to
  run and \<^verbatim>\<open>offset\<close>. The result lists the tasks launched: identifier, offset, length.
\<close>

fun launchTasks :: "nat \<Rightarrow> nat \<Rightarrow> int \<Rightarrow> int \<Rightarrow> (nat \<times> int \<times> int) list" where
  "launchTasks i 0 offset len = []"
| "launchTasks i (Suc k) offset len = (i, offset, len) # launchTasks (Suc i) k (offset + len) len"

text \<open>The division panics when \<^verbatim>\<open>numTasks\<close> is zero.\<close>

definition partitionTasks :: "int \<Rightarrow> int \<Rightarrow> (nat \<times> int \<times> int) list outcome" where
  "partitionTasks fileLength numTasks =
     (if numTasks = 0 then Panicked
      else Returned (launchTasks 0 (nat numTasks) 0 (lengthPerThread fileLength numTasks)))"

text \<open>
  \<^verbatim>\<open>f.ReadAt(b, off)\<close> of the Go library on a file of \<open>fileSize\<close> bytes, for a buffer of
  \<open>len\<close> bytes: the number of bytes read, and \<^verbatim>\<open>io.EOF\<close> when fewer than \<open>len\<close> bytes
  were there.
\<close>

definition os_ReadAt :: "int \<Rightarrow> int \<Rightarrow> int \<Rightarrow> int \<times> error option" where
  "os_ReadAt fileSize len off =
     (if off < 0 then (0, Some (ErrExternal ''negative offset''))
      else (let n = max 0 (min len (fileSize - off))
            in (n, if n < len then Some io_EOF else None)))"

text \<open>
  What the upload worker is answered: \<^verbatim>\<open>AcquireUnmanagedConnection\<close>,
  \<^verbatim>\<open>IsConnected\<close>, the errors of \<^verbatim>\<open>OpenDataObjectWithReplicaToken\<close> and of
  \<^verbatim>\<open>os.OpenFile\<close>, the result of \<^verbatim>\<open>SeekDataObject\<close>, the error of the write at each
  position of the handle, and the error of \<^verbatim>\<open>CloseDataObjectReplica\<close>.
\<close>

record upload_env =
  upAcquireResult :: "error + conn option"
  upConnected :: bool
  upOpenReplica :: "error option"
  upLocalOpen :: "error option"
  upSeekResult :: "error + int"
  upWriteResult :: "int \<Rightarrow> error option"
  upCloseReplica :: "error option"

text \<open>
  The copy loop \<^verbatim>\<open>for taskRemain > 0 { ... }\<close> of \<^verbatim>\<open>uploadTask\<close>, on a local file of
  \<open>fileSize\<close> bytes (the variables of the worker are prefixed with \<open>up\<close> here); \<open>B\<close> is \<^verbatim>\<open>common.ReadWriteBufferSize\<close>. The result is
  \<^verbatim>\<open>taskWriteErr\<close>. A slice bound below zero panics; a read of no bytes without an
  error leaves every variable as it was, so the loop spins.
\<close>

function uploadLoop ::
  "int \<Rightarrow> int \<Rightarrow> (int \<Rightarrow> error option) \<Rightarrow> conn \<Rightarrow> int \<Rightarrow> int \<Rightarrow> int \<Rightarrow> event list
     \<Rightarrow> error option outcome \<times> event list" where
  "uploadLoop B fileSize wr c upOffset upLength upRemain evs =
     (if upRemain > 0
      then (let bufferLen = (if upRemain < B then upRemain else B)
            in if bufferLen < 0 then (Panicked, evs)
               else (let pos = upOffset + (upLength - upRemain);
                         bytesRead = fst (os_ReadAt fileSize bufferLen pos);
                         taskReadErr = snd (os_ReadAt fileSize bufferLen pos)
                     in case (if bytesRead > 0 then wr pos else None) of
                          Some taskWriteErr \<Rightarrow>
                            (Returned (Some taskWriteErr), evs @ [EvWriteFailed c pos bytesRead])
                        | None \<Rightarrow>
                           (let evs1 = (if bytesRead > 0 then evs @ [EvWrite c pos bytesRead] else evs);
                                upRemain1 = (if bytesRead > 0 then upRemain - bytesRead else upRemain)
                            in case taskReadErr of
                                 Some err \<Rightarrow>
                                   if err = io_EOF then (Returned None, evs1)
                                   else (Returned (Some (ErrWrap ''failed to read file'' err)), evs1)
                               | None \<Rightarrow>
                                   if bytesRead > 0
                                   then uploadLoop B fileSize wr c upOffset upLength upRemain1 evs1
                                   else (Blocked, evs1))))
      else (Returned None, evs))"
  by pat_completeness auto
termination
  by (relation "measure (\<lambda>(B, fileSize, wr, c, upOffset, upLength, upRemain, evs). nat upRemain)")
     auto

declare uploadLoop.simps [simp del]

text \<open>
  \<^verbatim>\<open>uploadTask(taskOffset, taskLength)\<close>; the arguments are \<open>upOffset\<close> and \<open>upLength\<close>
  here, \<^verbatim>\<open>taskRemain\<close> is \<open>upRemain\<close>. The deferred calls run in reverse order when
  the worker returns: \<^verbatim>\<open>f.Close()\<close>, \<^verbatim>\<open>CloseDataObjectReplica\<close> (whose error is put on
  \<^verbatim>\<open>errChan\<close>), \<^verbatim>\<open>DiscardConnection\<close>.
\<close>

definition closeReplicaAndDiscard :: "upload_env \<Rightarrow> conn \<Rightarrow> event list" where
  "closeReplicaAndDiscard env c =
     EvCloseReplica c #
     (case upCloseReplica env of Some errClose \<Rightarrow> [EvEnqueue errClose] | None \<Rightarrow> []) @
     [EvDiscardConnection (Some c)]"

definition uploadTask :: "int \<Rightarrow> int \<Rightarrow> int \<Rightarrow> int \<Rightarrow> upload_env \<Rightarrow> event list outcome" where
  "uploadTask B fileSize upOffset upLength env =
     (case upAcquireResult env of
        Inl taskErr \<Rightarrow>
          Returned [EvAcquireUnmanagedConnection,
                    EvEnqueue (ErrWrap ''failed to get connection'' taskErr)]
      | Inr None \<Rightarrow>
          Returned [EvAcquireUnmanagedConnection,
                    EvEnqueue (ErrMsg ''connection is nil or disconnected''),
                    EvDiscardConnection None]
      | Inr (Some taskConn) \<Rightarrow>
          if \<not> upConnected env
          then Returned [EvAcquireUnmanagedConnection,
                         EvEnqueue (ErrMsg ''connection is nil or disconnected''),
                         EvDiscardConnection (Some taskConn)]
          else (case upOpenReplica env of
                  Some taskErr \<Rightarrow>
                    Returned [EvAcquireUnmanagedConnection, EvOpenReplica taskConn,
                              EvEnqueue taskErr, EvDiscardConnection (Some taskConn)]
                | None \<Rightarrow>
                   (let evs0 = [EvAcquireUnmanagedConnection, EvOpenReplica taskConn]
                    in case upLocalOpen env of
                         Some taskErr \<Rightarrow>
                           Returned (evs0 @ [EvEnqueue (ErrWrap ''failed to open file'' taskErr)] @
                                     closeReplicaAndDiscard env taskConn)
                       | None \<Rightarrow>
                          (let evs1 = evs0 @ [EvSeekDataObject taskConn upOffset]
                           in case upSeekResult env of
                                Inl taskErr \<Rightarrow>
                                  Returned (evs1 @ [EvEnqueue taskErr] @ closeReplicaAndDiscard env taskConn)
                              | Inr taskNewOffset \<Rightarrow>
                                  if taskNewOffset \<noteq> upOffset
                                  then Returned (evs1 @ [EvEnqueue (ErrMsg ''failed to seek to target offset'')] @
                                                 closeReplicaAndDiscard env taskConn)
                                  else (case uploadLoop B fileSize (upWriteResult env) taskConn
                                               upOffset upLength upLength evs1 of
                                          (Returned None, evs2) \<Rightarrow>
                                            Returned (evs2 @ closeReplicaAndDiscard env taskConn)
                                        | (Returned (Some taskWriteErr), evs2) \<Rightarrow>
                                            Returned (evs2 @ [EvEnqueue taskWriteErr] @
                                                      closeReplicaAndDiscard env taskConn)
                                        | (Blocked, evs2) \<Rightarrow> Blocked
                                        | (Panicked, evs2) \<Rightarrow> Panicked)))))"







section \<open>Transfer engine (package fs): the download functions\<close>

text \<open>
  The local file system maps a path to the bytes of the file. \<^verbatim>\<open>os.OpenFile\<close> of the Go
  library, as far as the downloads use it: a missing file is created when \<^verbatim>\<open>O_CREATE\<close>
  is given, an existing file is cut to length zero when \<^verbatim>\<open>O_TRUNC\<close> is given and is
  left as it is otherwise. \<open>osErr\<close> is the error with which the operating system refuses
  the call (permissions, a missing directory), if it does. \<^verbatim>\<open>os.Create(name)\<close> is
  \<^verbatim>\<open>OpenFile(name, O_RDWR|O_CREATE|O_TRUNC, 0666)\<close>.
\<close>

type_synonym filesystem = "string \<rightharpoonup> nat list"

datatype open_flag = O_RDONLY | O_WRONLY | O_RDWR | O_CREATE | O_TRUNC

definition os_OpenFile ::
  "error option \<Rightarrow> filesystem \<Rightarrow> string \<Rightarrow> open_flag set \<Rightarrow> error + filesystem" where
  "os_OpenFile osErr fs name flags =
     (case osErr of
        Some err \<Rightarrow> Inl err
      | None \<Rightarrow>
         (case fs name of
            None \<Rightarrow>
              if O_CREATE \<in> flags then Inr (fs(name \<mapsto> []))
              else Inl (ErrExternal ''no such file or directory'')
          | Some content \<Rightarrow>
              if O_TRUNC \<in> flags then Inr (fs(name \<mapsto> [])) else Inr fs))"

definition os_Create :: "error option \<Rightarrow> filesystem \<Rightarrow> string \<Rightarrow> error + filesystem" where
  "os_Create osErr fs name = os_OpenFile osErr fs name {O_RDWR, O_CREATE, O_TRUNC}"

text \<open>
  \<^verbatim>\<open>numTasks := taskNum; if numTasks <= 0 { numTasks = util.GetNumTasksForParallelTransfer(fileLength) };
  if numTasks > session.GetConfig().ConnectionMaxNumber { numTasks = ... }\<close>.
  \<open>autoTasks\<close> is the value of \<^verbatim>\<open>GetNumTasksForParallelTransfer\<close>, which is not part of
  the sources.
\<close>

definition resolveNumTasks :: "int \<Rightarrow> int \<Rightarrow> int \<Rightarrow> int" where
  "resolveNumTasks taskNum autoTasks maxConn =
     (let numTasks = (if taskNum \<le> 0 then autoTasks else taskNum)
      in if numTasks > maxConn then maxConn else numTasks)"

text \<open>
  What a download function is answered by its collaborators: the automatic task count,
  \<^verbatim>\<open>common.ReadWriteBufferSize\<close>, the error with which the creation of the local file is
  refused, the result of \<^verbatim>\<open>session.AcquireConnectionsMulti\<close> (\<open>None\<close>: the call never
  returns), and the environment of each worker. The last five fields are used by the
  resumable download only: the result of \<^verbatim>\<open>GetOrNewDataObjectTransferStatusLocal\<close> (not
  part of the sources; it hands back the journal of an earlier transfer when there is
  one) and the errors of \<^verbatim>\<open>CreateStatusFile\<close>, \<^verbatim>\<open>WriteHeader\<close>, \<^verbatim>\<open>CloseStatusFile\<close>
  and \<^verbatim>\<open>DeleteStatusFile\<close>.
\<close>

record transfer_env =
  autoTasks :: int
  bufSize :: int
  localCreateErr :: "error option"
  acquireMulti :: "(error + conn list) option"
  taskEnvs :: "nat \<Rightarrow> task_env"
  getOrNewStatus :: "error + DataObjectTransferStatus"
  createStatusErr :: "error option"
  writeHeaderErr :: "error option"
  closeStatusErr :: "error option"
  deleteStatusErr :: "error option"

text \<open>The calls made on the journal file, in order.\<close>

datatype journal_call = JCreateStatusFile | JWriteHeader | JCloseStatusFile | JDeleteStatusFile

text \<open>
  How far a download function gets before it launches its workers: it returns early, it
  never returns, it panics, or it is about to launch \<^verbatim>\<open>numTasks\<close> workers on the
  connections it acquired. \<^verbatim>\<open>make(chan error, numTasks)\<close> panics for a negative size.
\<close>

datatype setup_result =
    EarlyReturn "error option"
  | NeverReturns
  | Panics
  | Launch int "conn list"

definition acquireForTasks :: "transfer_env \<Rightarrow> int \<Rightarrow> setup_result" where
  "acquireForTasks env numTasks =
     (if numTasks < 0 then Panics
      else (case acquireMulti env of
              None \<Rightarrow> NeverReturns
            | Some (Inl err) \<Rightarrow> EarlyReturn (Some (ErrWrap ''failed to get connection'' err))
            | Some (Inr connections) \<Rightarrow> Launch numTasks connections))"

text \<open>
  \<^verbatim>\<open>DownloadDataObjectParallel\<close> up to the launch of the workers. The result comes with the
  local file system as the workers find it.
\<close>

definition DownloadDataObjectParallel_setup ::
  "int \<Rightarrow> transfer_env \<Rightarrow> filesystem \<Rightarrow> string \<Rightarrow> int \<Rightarrow> int \<Rightarrow> setup_result \<times> filesystem" where
  "DownloadDataObjectParallel_setup maxConn env fs localPath fileLength taskNum =
     (if fileLength = 0
      then (case os_Create (localCreateErr env) fs localPath of
              Inl err \<Rightarrow> (EarlyReturn (Some (ErrWrap ''failed to create file'' err)), fs)
            | Inr fs1 \<Rightarrow> (EarlyReturn None, fs1))
      else (let numTasks = resolveNumTasks taskNum (autoTasks env) maxConn
            in case os_Create (localCreateErr env) fs localPath of
                 Inl err \<Rightarrow> (EarlyReturn (Some (ErrWrap ''failed to create file'' err)), fs)
               | Inr fs1 \<Rightarrow> (acquireForTasks env numTasks, fs1)))"

text \<open>
  \<^verbatim>\<open>DownloadDataObjectParallelResumable\<close> up to the launch of the workers; the result
  comes with the local file system as the workers find it, the calls made on the journal
  file, and the status the workers consult. \<open>numTasks0\<close> is the task count that the
  request of the caller resolves to; it is handed to
  \<^verbatim>\<open>GetOrNewDataObjectTransferStatusLocal\<close> and then overwritten with the \<^verbatim>\<open>Threads\<close> of
  the status that comes back.
\<close>

definition DownloadDataObjectParallelResumable_setup ::
  "int \<Rightarrow> transfer_env \<Rightarrow> filesystem \<Rightarrow> string \<Rightarrow> int \<Rightarrow> int
     \<Rightarrow> setup_result \<times> filesystem \<times> journal_call list \<times> DataObjectTransferStatus option" where
  "DownloadDataObjectParallelResumable_setup maxConn env fs localPath fileLength taskNum =
     (if fileLength = 0
      then (case os_Create (localCreateErr env) fs localPath of
              Inl err \<Rightarrow> (EarlyReturn (Some (ErrWrap ''failed to create file'' err)), fs, [], None)
            | Inr fs1 \<Rightarrow> (EarlyReturn None, fs1, [], None))
      else (let numTasks0 = resolveNumTasks taskNum (autoTasks env) maxConn
            in case getOrNewStatus env of
                 Inl err \<Rightarrow>
                   (EarlyReturn (Some (ErrWrap ''failed to read transfer status file'' err)), fs, [], None)
               | Inr status \<Rightarrow>
                  (let numTasks = Threads status
                   in case createStatusErr env of
                        Some err \<Rightarrow>
                          (EarlyReturn (Some (ErrWrap ''failed to create transfer status file'' err)),
                           fs, [JCreateStatusFile], Some status)
                      | None \<Rightarrow>
                         (case writeHeaderErr env of
                            Some err \<Rightarrow>
                              (EarlyReturn (Some (ErrWrap ''failed to write transfer status file header'' err)),
                               fs, [JCreateStatusFile, JWriteHeader, JCloseStatusFile], Some status)
                          | None \<Rightarrow>
                             (case os_OpenFile (localCreateErr env) fs localPath {O_RDWR, O_CREATE} of
                                Inl err \<Rightarrow>
                                  (EarlyReturn (Some (ErrWrap ''failed to create file'' err)),
                                   fs, [JCreateStatusFile, JWriteHeader], Some status)
                              | Inr fs1 \<Rightarrow>
                                  (acquireForTasks env numTasks, fs1,
                                   [JCreateStatusFile, JWriteHeader], Some status))))))"

text \<open>
  The workers of a download, one per task launched. They run concurrently; each is
  modelled on its own, with its own environment.
\<close>

definition runTasks ::
  "bool \<Rightarrow> int \<Rightarrow> DataObjectTransferStatus option \<Rightarrow> conn list \<Rightarrow> (nat \<Rightarrow> task_env)
     \<Rightarrow> (nat \<times> int \<times> int) list \<Rightarrow> event list outcome list" where
  "runTasks res B status connections envs tasks =
     map (\<lambda>(i, off, len).
            downloadTask \<lparr>resumable = res, bufferSize = B, taskID = i, taskOffset = off,
                          taskLength = len\<rparr> status connections (envs i))
         tasks"

text \<open>
  \<^verbatim>\<open>taskWaitGroup.Wait()\<close> and the contents of \<^verbatim>\<open>errChan\<close> after it: a worker that
  panics takes the program down, a worker that never returns keeps \<^verbatim>\<open>Wait\<close> from
  returning. Which error comes first on the channel depends on the scheduling of the
  workers; the model lists the errors in the order of the tasks.
\<close>

fun waitAll :: "event list outcome list \<Rightarrow> error list outcome" where
  "waitAll [] = Returned []"
| "waitAll (w # ws) =
     (case w of
        Panicked \<Rightarrow> Panicked
      | Blocked \<Rightarrow> (case waitAll ws of Panicked \<Rightarrow> Panicked | _ \<Rightarrow> Blocked)
      | Returned evs \<Rightarrow>
         (case waitAll ws of
            Returned errs \<Rightarrow> Returned (enqueued evs @ errs)
          | Blocked \<Rightarrow> Blocked
          | Panicked \<Rightarrow> Panicked))"

text \<open>
  What a download function leaves behind: what it returns, the local file system as the
  workers found it (the bytes they wrote are in their events), the calls made on the
  journal file, the tasks launched and what became of each worker.
\<close>

record download_result =
  dlReturn :: "error option outcome"
  dlFiles :: filesystem
  dlJournal :: "journal_call list"
  dlTasks :: "(nat \<times> int \<times> int) list"
  dlWorkers :: "event list outcome list"

definition DownloadDataObjectParallel ::
  "int \<Rightarrow> transfer_env \<Rightarrow> filesystem \<Rightarrow> string \<Rightarrow> int \<Rightarrow> int \<Rightarrow> download_result" where
  "DownloadDataObjectParallel maxConn env fs localPath fileLength taskNum =
     (case DownloadDataObjectParallel_setup maxConn env fs localPath fileLength taskNum of
        (EarlyReturn r, fs1) \<Rightarrow>
          \<lparr>dlReturn = Returned r, dlFiles = fs1, dlJournal = [], dlTasks = [], dlWorkers = []\<rparr>
      | (NeverReturns, fs1) \<Rightarrow>
          \<lparr>dlReturn = Blocked, dlFiles = fs1, dlJournal = [], dlTasks = [], dlWorkers = []\<rparr>
      | (Panics, fs1) \<Rightarrow>
          \<lparr>dlReturn = Panicked, dlFiles = fs1, dlJournal = [], dlTasks = [], dlWorkers = []\<rparr>
      | (Launch numTasks connections, fs1) \<Rightarrow>
         (case partitionTasks fileLength numTasks of
            Returned tasks \<Rightarrow>
              (let workers = runTasks False (bufSize env) None connections (taskEnvs env) tasks
               in \<lparr>dlReturn = (case waitAll workers of
                                  Returned [] \<Rightarrow> Returned None
                                | Returned (err # errs) \<Rightarrow> Returned (Some err)
                                | Blocked \<Rightarrow> Blocked
                                | Panicked \<Rightarrow> Panicked),
                    dlFiles = fs1, dlJournal = [], dlTasks = tasks, dlWorkers = workers\<rparr>)
          | Blocked \<Rightarrow>
              \<lparr>dlReturn = Blocked, dlFiles = fs1, dlJournal = [], dlTasks = [], dlWorkers = []\<rparr>
          | Panicked \<Rightarrow>
              \<lparr>dlReturn = Panicked, dlFiles = fs1, dlJournal = [], dlTasks = [], dlWorkers = []\<rparr>))"

text \<open>
  The end of \<^verbatim>\<open>DownloadDataObjectParallelResumable\<close>, after \<^verbatim>\<open>Wait\<close>: what is returned
  and the calls made on the journal file.
\<close>

definition finishResumable ::
  "transfer_env \<Rightarrow> error list outcome \<Rightarrow> error option outcome \<times> journal_call list" where
  "finishResumable env waited =
     (case waited of
        Blocked \<Rightarrow> (Blocked, [])
      | Panicked \<Rightarrow> (Panicked, [])
      | Returned (err # errs) \<Rightarrow> (Returned (Some err), [JCloseStatusFile])
      | Returned [] \<Rightarrow>
         (case closeStatusErr env of
            Some err \<Rightarrow> (Returned (Some (ErrWrap ''failed to close status file'' err)), [JCloseStatusFile])
          | None \<Rightarrow>
             (case deleteStatusErr env of
                Some err \<Rightarrow>
                  (Returned (Some (ErrWrap ''failed to delete status file'' err)),
                   [JCloseStatusFile, JDeleteStatusFile])
              | None \<Rightarrow> (Returned None, [JCloseStatusFile, JDeleteStatusFile]))))"

definition DownloadDataObjectParallelResumable ::
  "int \<Rightarrow> transfer_env \<Rightarrow> filesystem \<Rightarrow> string \<Rightarrow> int \<Rightarrow> int \<Rightarrow> download_result" where
  "DownloadDataObjectParallelResumable maxConn env fs localPath fileLength taskNum =
     (case DownloadDataObjectParallelResumable_setup maxConn env fs localPath fileLength taskNum of
        (EarlyReturn r, fs1, journal, status) \<Rightarrow>
          \<lparr>dlReturn = Returned r, dlFiles = fs1, dlJournal = journal, dlTasks = [], dlWorkers = []\<rparr>
      | (NeverReturns, fs1, journal, status) \<Rightarrow>
          \<lparr>dlReturn = Blocked, dlFiles = fs1, dlJournal = journal, dlTasks = [], dlWorkers = []\<rparr>
      | (Panics, fs1, journal, status) \<Rightarrow>
          \<lparr>dlReturn = Panicked, dlFiles = fs1, dlJournal = journal, dlTasks = [], dlWorkers = []\<rparr>
      | (Launch numTasks connections, fs1, journal, status) \<Rightarrow>
         (case partitionTasks fileLength numTasks of
            Returned tasks \<Rightarrow>
              (let workers = runTasks True (bufSize env) status connections (taskEnvs env) tasks;
                   (r, calls) = finishResumable env (waitAll workers)
               in \<lparr>dlReturn = r, dlFiles = fs1, dlJournal = journal @ calls,
                    dlTasks = tasks, dlWorkers = workers\<rparr>)
          | Blocked \<Rightarrow>
              \<lparr>dlReturn = Blocked, dlFiles = fs1, dlJournal = journal, dlTasks = [], dlWorkers = []\<rparr>
          | Panicked \<Rightarrow>
              \<lparr>dlReturn = Panicked, dlFiles = fs1, dlJournal = journal, dlTasks = [], dlWorkers = []\<rparr>))"


section \<open>Transfer engine (package fs): the upload functions\<close>

text \<open>
  \<^verbatim>\<open>os.Stat\<close> of the Go library, as far as the uploads use it: the size of the file.
\<close>

definition os_Stat :: "error option \<Rightarrow> filesystem \<Rightarrow> string \<Rightarrow> error + int" where
  "os_Stat osErr fs name =
     (case osErr of
        Some err \<Rightarrow> Inl err
      | None \<Rightarrow>
         (case fs name of
            None \<Rightarrow> Inl (ErrExternal ''no such file or directory'')
          | Some content \<Rightarrow> Inr (int (length content))))"

text \<open>
  The calls an upload function makes on its collaborators, in order, with the arguments
  that matter: the session, the remote calls on the connection of the function itself,
  and the progress callback. \<open>UWriteDataObject c off n\<close> is a successful write of the \<open>n\<close>
  bytes of the local file that start at \<open>off\<close>.
\<close>

type_synonym keyword_map = "(string \<times> string) list"

datatype upload_call =
    UAcquireConnection
  | UReturnConnection "conn option"
  | UAcquireUnmanagedConnection
  | UDiscardConnection "conn option"
  | UCreateDataObject conn string string keyword_map
  | UOpenDataObjectForPutParallel conn string string int int keyword_map
  | UGetReplicaAccessInfo conn
  | UCallback int int
  | UWriteDataObject conn int int
  | UWriteDataObjectFailed conn int int
  | UCloseDataObject conn
  | UReplicateDataObject conn string

text \<open>
  What an upload function is answered. For both functions: the error with which
  \<^verbatim>\<open>os.Stat\<close> is refused, \<^verbatim>\<open>common.ReadWriteBufferSize\<close>, whether a callback was passed,
  the result of \<^verbatim>\<open>AcquireConnection\<close> and \<^verbatim>\<open>IsConnected\<close> of the connection, the error
  of \<^verbatim>\<open>os.OpenFile\<close>, the error of \<^verbatim>\<open>CreateDataObject\<close>, the error of \<^verbatim>\<open>f.Read\<close> and of
  the write at each position of the file, the errors of \<^verbatim>\<open>CloseDataObject\<close> and
  \<^verbatim>\<open>ReplicateDataObject\<close>. For the parallel upload only:
  \<^verbatim>\<open>session.SupportParallelUpload()\<close>, the value of
  \<^verbatim>\<open>util.GetNumTasksForParallelTransfer(fileLength)\<close>, the result of
  \<^verbatim>\<open>AcquireUnmanagedConnection\<close> and \<^verbatim>\<open>IsConnected\<close> of that connection, the errors of
  \<^verbatim>\<open>OpenDataObjectForPutParallel\<close> and \<^verbatim>\<open>GetReplicaAccessInfo\<close>, and the environment of
  each worker.
\<close>

record put_env =
  statErr :: "error option"
  putBufferSize :: int
  hasCallback :: bool
  putAcquire :: "error + conn option"
  putConnected :: bool
  putLocalOpenErr :: "error option"
  putCreateErr :: "error option"
  putReadErr :: "int \<Rightarrow> error option"
  putWriteErr :: "int \<Rightarrow> error option"
  putCloseErr :: "error option"
  putReplicateErr :: "error option"
  supportParallelUpload :: bool
  putAutoTasks :: int
  putAcquireUnmanaged :: "error + conn option"
  putUnmanagedConnected :: bool
  putOpenParallelErr :: "error option"
  putReplicaInfoErr :: "error option"
  putTaskEnvs :: "nat \<Rightarrow> upload_env"

text \<open>
  What an upload function leaves behind: what it returns, its calls, and what became of
  each worker it started.
\<close>

record upload_result =
  upReturn :: "error option outcome"
  upCalls :: "upload_call list"
  upWorkers :: "event list outcome list"

definition callbackCall :: "put_env \<Rightarrow> int \<Rightarrow> int \<Rightarrow> upload_call list" where
  "callbackCall env processed totalLength =
     (if hasCallback env then [UCallback processed totalLength] else [])"

text \<open>
  \<^verbatim>\<open>f.Read(buffer)\<close> of the Go library at position \<open>pos\<close> of a file of \<open>fileLength\<close>
  bytes, for a buffer of \<open>B\<close> bytes: an error of the operating system, or \<^verbatim>\<open>io.EOF\<close> and
  no bytes at the end of the file, or the bytes that are there.
\<close>

definition os_Read :: "put_env \<Rightarrow> int \<Rightarrow> int \<Rightarrow> int \<times> error option" where
  "os_Read env fileLength pos =
     (case putReadErr env pos of
        Some err \<Rightarrow> (0, Some err)
      | None \<Rightarrow>
          if putBufferSize env \<le> 0 then (0, None)
          else if pos \<ge> fileLength then (0, Some io_EOF)
          else (min (putBufferSize env) (fileLength - pos), None))"

text \<open>
  The copy loop of \<^verbatim>\<open>UploadDataObject\<close>; \<open>pos\<close> is the position of the file, which is
  also \<^verbatim>\<open>totalBytesUploaded\<close>; \<open>nRead\<close>, \<open>rErr\<close> and \<open>wErr\<close> are \<^verbatim>\<open>bytesRead\<close>,
  \<^verbatim>\<open>readErr\<close> and \<^verbatim>\<open>writeErr\<close>. The result is \<^verbatim>\<open>writeErr\<close>. With an empty buffer the
  loop spins.
\<close>

function serialCopy ::
  "put_env \<Rightarrow> conn \<Rightarrow> int \<Rightarrow> int \<Rightarrow> upload_call list \<Rightarrow> error option outcome \<times> upload_call list" where
  "serialCopy env c fileLength pos calls =
     (let nRead = fst (os_Read env fileLength pos);
          rErr = snd (os_Read env fileLength pos)
      in case (if nRead > 0 then putWriteErr env pos else None) of
           Some wErr \<Rightarrow> (Returned (Some wErr), calls @ [UWriteDataObjectFailed c pos nRead])
         | None \<Rightarrow>
            (let calls1 = (if nRead > 0
                           then calls @ [UWriteDataObject c pos nRead] @
                                callbackCall env (pos + nRead) fileLength
                           else calls)
             in case rErr of
                  Some err \<Rightarrow>
                    if err = io_EOF then (Returned None, calls1)
                    else (Returned (Some (ErrWrap ''failed to read file'' err)), calls1)
                | None \<Rightarrow>
                    if nRead > 0 then serialCopy env c fileLength (pos + nRead) calls1
                    else (Blocked, calls1)))"
  by pat_completeness auto
termination
  by (relation "measure (\<lambda>(env, c, fileLength, pos, calls). nat (fileLength - pos))")
     (auto simp: os_Read_def split: option.splits if_splits)

declare serialCopy.simps [simp del]

text \<open>
  \<^verbatim>\<open>UploadDataObject\<close>; the argument \<^verbatim>\<open>replicate\<close> is \<open>doReplicate\<close>. The deferred
  \<^verbatim>\<open>ReturnConnection(conn)\<close> is the last call on every path after the acquisition, also
  when the function panics. \<^verbatim>\<open>make([]byte, n)\<close> panics for a negative \<open>n\<close>.
\<close>

definition UploadDataObject ::
  "put_env \<Rightarrow> IRODSAccount \<Rightarrow> filesystem \<Rightarrow> string \<Rightarrow> string \<Rightarrow> string \<Rightarrow> bool \<Rightarrow> keyword_map
     \<Rightarrow> upload_result" where
  "UploadDataObject env acct fs localPath irodsPath resource doReplicate kw =
     (let resource1 = (if length resource = 0 then DefaultResource acct else resource)
      in case os_Stat (statErr env) fs localPath of
           Inl err \<Rightarrow>
             \<lparr>upReturn = Returned (Some (ErrWrap ''failed to stat file'' err)), upCalls = [], upWorkers = []\<rparr>
         | Inr fileLength \<Rightarrow>
            (case putAcquire env of
               Inl err \<Rightarrow>
                 \<lparr>upReturn = Returned (Some (ErrWrap ''failed to get connection'' err)),
                  upCalls = [UAcquireConnection], upWorkers = []\<rparr>
             | Inr None \<Rightarrow>
                 \<lparr>upReturn = Returned (Some (ErrMsg ''connection is nil or disconnected'')),
                  upCalls = [UAcquireConnection, UReturnConnection None], upWorkers = []\<rparr>
             | Inr (Some c) \<Rightarrow>
                 if \<not> putConnected env
                 then \<lparr>upReturn = Returned (Some (ErrMsg ''connection is nil or disconnected'')),
                       upCalls = [UAcquireConnection, UReturnConnection (Some c)], upWorkers = []\<rparr>
                 else (case putLocalOpenErr env of
                         Some err \<Rightarrow>
                           \<lparr>upReturn = Returned (Some (ErrWrap ''failed to open file'' err)),
                            upCalls = [UAcquireConnection, UReturnConnection (Some c)], upWorkers = []\<rparr>
                       | None \<Rightarrow>
                          (case putCreateErr env of
                             Some err \<Rightarrow>
                               \<lparr>upReturn = Returned (Some (ErrWrap ''failed to open data object'' err)),
                                upCalls = [UAcquireConnection, UCreateDataObject c irodsPath resource1 kw,
                                           UReturnConnection (Some c)],
                                upWorkers = []\<rparr>
                           | None \<Rightarrow>
                              (let calls0 = [UAcquireConnection, UCreateDataObject c irodsPath resource1 kw] @
                                            callbackCall env 0 fileLength
                               in if putBufferSize env < 0
                                  then \<lparr>upReturn = Panicked,
                                        upCalls = calls0 @ [UReturnConnection (Some c)], upWorkers = []\<rparr>
                                  else (case serialCopy env c fileLength 0 calls0 of
                                          (Blocked, calls1) \<Rightarrow>
                                            \<lparr>upReturn = Blocked, upCalls = calls1, upWorkers = []\<rparr>
                                        | (Panicked, calls1) \<Rightarrow>
                                            \<lparr>upReturn = Panicked, upCalls = calls1, upWorkers = []\<rparr>
                                        | (Returned (Some wErr), calls1) \<Rightarrow>
                                            \<lparr>upReturn = Returned (Some wErr),
                                             upCalls = calls1 @ [UCloseDataObject c, UReturnConnection (Some c)],
                                             upWorkers = []\<rparr>
                                        | (Returned None, calls1) \<Rightarrow>
                                            if doReplicate
                                            then \<lparr>upReturn = Returned (putReplicateErr env),
                                                  upCalls = calls1 @ [UCloseDataObject c,
                                                                      UReplicateDataObject c irodsPath,
                                                                      UReturnConnection (Some c)],
                                                  upWorkers = []\<rparr>
                                            else \<lparr>upReturn = Returned None,
                                                  upCalls = calls1 @ [UCloseDataObject c,
                                                                      UReturnConnection (Some c)],
                                                  upWorkers = []\<rparr>))))))"

text \<open>
  The workers of a parallel upload, one per task launched, and the wait for them. The
  workers put their errors on \<^verbatim>\<open>errChan\<close>, which holds \<^verbatim>\<open>numTasks\<close> errors; nothing is
  taken from it before \<^verbatim>\<open>Wait\<close> returns, so a worker that finds it full never returns.
\<close>

definition runUploadTasks ::
  "int \<Rightarrow> int \<Rightarrow> (nat \<Rightarrow> upload_env) \<Rightarrow> (nat \<times> int \<times> int) list \<Rightarrow> event list outcome list" where
  "runUploadTasks B fileLength envs tasks =
     map (\<lambda>(i, off, len). uploadTask B fileLength off len (envs i)) tasks"

definition waitUpload :: "int \<Rightarrow> event list outcome list \<Rightarrow> error list outcome" where
  "waitUpload numTasks workers =
     (case waitAll workers of
        Returned errs \<Rightarrow> if int (length errs) > numTasks then Blocked else Returned errs
      | Blocked \<Rightarrow> Blocked
      | Panicked \<Rightarrow> Panicked)"

text \<open>
  The parallel path of \<^verbatim>\<open>UploadDataObjectParallel\<close>, from
  \<^verbatim>\<open>AcquireUnmanagedConnection\<close> on; \<open>resource1\<close> is the resource after the default was
  applied. The deferred \<^verbatim>\<open>DiscardConnection(conn)\<close> is the last call on every path after
  the acquisition.
\<close>

definition uploadParallelPath ::
  "put_env \<Rightarrow> string \<Rightarrow> string \<Rightarrow> int \<Rightarrow> int \<Rightarrow> bool \<Rightarrow> keyword_map \<Rightarrow> upload_result" where
  "uploadParallelPath env irodsPath resource1 fileLength numTasks doReplicate kw =
     (case putAcquireUnmanaged env of
        Inl err \<Rightarrow>
          \<lparr>upReturn = Returned (Some (ErrWrap ''failed to get connection'' err)),
           upCalls = [UAcquireUnmanagedConnection], upWorkers = []\<rparr>
      | Inr None \<Rightarrow>
          \<lparr>upReturn = Returned (Some (ErrMsg ''connection is nil or disconnected'')),
           upCalls = [UAcquireUnmanagedConnection, UDiscardConnection None], upWorkers = []\<rparr>
      | Inr (Some c) \<Rightarrow>
          if \<not> putUnmanagedConnected env
          then \<lparr>upReturn = Returned (Some (ErrMsg ''connection is nil or disconnected'')),
                upCalls = [UAcquireUnmanagedConnection, UDiscardConnection (Some c)], upWorkers = []\<rparr>
          else (let calls0 = [UAcquireUnmanagedConnection,
                              UOpenDataObjectForPutParallel c irodsPath resource1 numTasks fileLength kw]
                in case putOpenParallelErr env of
                     Some err \<Rightarrow>
                       \<lparr>upReturn = Returned (Some err),
                        upCalls = calls0 @ [UDiscardConnection (Some c)], upWorkers = []\<rparr>
                   | None \<Rightarrow>
                      (case putReplicaInfoErr env of
                         Some err \<Rightarrow>
                           \<lparr>upReturn = Returned (Some err),
                            upCalls = calls0 @ [UGetReplicaAccessInfo c, UCloseDataObject c,
                                                UDiscardConnection (Some c)],
                            upWorkers = []\<rparr>
                       | None \<Rightarrow>
                          (let calls1 = calls0 @ [UGetReplicaAccessInfo c]
                           in if numTasks < 0
                              then \<lparr>upReturn = Panicked,
                                    upCalls = calls1 @ [UDiscardConnection (Some c)], upWorkers = []\<rparr>
                              else (let calls2 = calls1 @ callbackCall env 0 fileLength
                                    in case partitionTasks fileLength numTasks of
                                         Blocked \<Rightarrow> \<lparr>upReturn = Blocked, upCalls = calls2, upWorkers = []\<rparr>
                                       | Panicked \<Rightarrow>
                                           \<lparr>upReturn = Panicked,
                                            upCalls = calls2 @ [UDiscardConnection (Some c)],
                                            upWorkers = []\<rparr>
                                       | Returned tasks \<Rightarrow>
                                          (let workers = runUploadTasks (putBufferSize env) fileLength
                                                           (putTaskEnvs env) tasks
                                           in case waitUpload numTasks workers of
                                                Blocked \<Rightarrow>
                                                  \<lparr>upReturn = Blocked, upCalls = calls2, upWorkers = workers\<rparr>
                                              | Panicked \<Rightarrow>
                                                  \<lparr>upReturn = Panicked, upCalls = calls2, upWorkers = workers\<rparr>
                                              | Returned (err # errs) \<Rightarrow>
                                                  \<lparr>upReturn = Returned (Some err),
                                                   upCalls = calls2 @ [UCloseDataObject c,
                                                                       UDiscardConnection (Some c)],
                                                   upWorkers = workers\<rparr>
                                              | Returned [] \<Rightarrow>
                                                 (case putCloseErr env of
                                                    Some err \<Rightarrow>
                                                      \<lparr>upReturn = Returned (Some err),
                                                       upCalls = calls2 @ [UCloseDataObject c,
                                                                           UDiscardConnection (Some c)],
                                                       upWorkers = workers\<rparr>
                                                  | None \<Rightarrow>
                                                      if doReplicate
                                                      then \<lparr>upReturn = Returned (putReplicateErr env),
                                                            upCalls = calls2 @ [UCloseDataObject c,
                                                                                UReplicateDataObject c irodsPath,
                                                                                UDiscardConnection (Some c)],
                                                            upWorkers = workers\<rparr>
                                                      else \<lparr>upReturn = Returned None,
                                                            upCalls = calls2 @ [UCloseDataObject c,
                                                                                UDiscardConnection (Some c)],
                                                            upWorkers = workers\<rparr>)))))))"

text \<open>
  \<^verbatim>\<open>UploadDataObjectParallel\<close>. The local file does not change while the function
  runs: \<^verbatim>\<open>os.Stat\<close> answers here what it answers in \<^verbatim>\<open>UploadDataObject\<close>.
\<close>

definition UploadDataObjectParallel ::
  "put_env \<Rightarrow> IRODSAccount \<Rightarrow> filesystem \<Rightarrow> string \<Rightarrow> string \<Rightarrow> string \<Rightarrow> int \<Rightarrow> bool \<Rightarrow> keyword_map
     \<Rightarrow> upload_result" where
  "UploadDataObjectParallel env acct fs localPath irodsPath resource taskNum doReplicate kw =
     (if \<not> supportParallelUpload env
      then UploadDataObject env acct fs localPath irodsPath resource doReplicate kw
      else (let resource1 = (if length resource = 0 then DefaultResource acct else resource)
            in case os_Stat (statErr env) fs localPath of
                 Inl err \<Rightarrow>
                   \<lparr>upReturn = Returned (Some (ErrWrap ''failed to stat file'' err)),
                    upCalls = [], upWorkers = []\<rparr>
               | Inr fileLength \<Rightarrow>
                   if fileLength = 0
                   then UploadDataObject env acct fs localPath irodsPath resource1 doReplicate kw
                   else (let numTasks = (if taskNum \<le> 0 then putAutoTasks env else taskNum)
                         in if numTasks = 1
                            then UploadDataObject env acct fs localPath irodsPath resource1 doReplicate kw
                            else uploadParallelPath env irodsPath resource1 fileLength numTasks
                                   doReplicate kw)))"


subsection \<open>Example inputs\<close>

text \<open>Concrete sessions and pool answers at which the theorems below are instantiated.\<close>

definition example_account :: IRODSAccount where
  "example_account = \<lparr>ClientUser = ''rods'', DefaultResource = ''demoResc''\<rparr>"

definition example_config :: IRODSSessionConfig where
  "example_config = \<lparr>StartNewTransaction = True, ConnectionMaxNumber = 4\<rparr>"

definition example_session :: "(conn \<times> int) list \<Rightarrow> IRODSSession" where
  "example_session shared =
     \<lparr>account = example_account, config = example_config, connectionPool = [],
      sharedConnections = shared, startNewTransaction = True, poormansRollbackFail = False,
      connectionPoolFailures = 0\<rparr>"

definition pool_exhausted :: pool_env where
  "pool_exhausted =
     \<lparr>poolAvailable = 0, poolGetResult = Inl ErrConnectionPoolFull, rollbackResult = None,
      poolGetNewResult = Inl ErrConnectionPoolFull, poolReturnResult = None\<rparr>"

definition pool_unreachable :: pool_env where
  "pool_unreachable =
     \<lparr>poolAvailable = 4, poolGetResult = Inl (ErrExternal ''connection refused''),
      rollbackResult = None, poolGetNewResult = Inl (ErrExternal ''connection refused''),
      poolReturnResult = None\<rparr>"

definition example_params :: task_params where
  "example_params = \<lparr>resumable = False, bufferSize = 4, taskID = 0, taskOffset = 0, taskLength = 10\<rparr>"

definition chunk :: "int \<Rightarrow> error option \<Rightarrow> error option \<Rightarrow> chunk_env" where
  "chunk n rerr werr = \<lparr>bytesRead = n, readErr = rerr, writeErr = werr, othersFailed = False\<rparr>"

definition example_trial :: "chunk_env list \<Rightarrow> trial_env" where
  "example_trial cs =
     \<lparr>openResult = None, seekResult = Inr 0, localSeekResult = Inr 0, chunks = cs,
      socketFailed = False, stillConnected = True,
      acquireResult = Inl (ErrMsg ''failed to get a shared connection''), acquiredConnected = False\<rparr>"

definition example_task :: "trial_env list \<Rightarrow> task_env" where
  "example_task ts = \<lparr>connConnected = True, localOpenResult = None, trials = ts\<rparr>"

definition socket_failure_trial :: "error + conn option \<Rightarrow> trial_env" where
  "socket_failure_trial acq =
     \<lparr>openResult = None, seekResult = Inr 0, localSeekResult = Inr 0,
      chunks = [chunk 4 None None, chunk 0 (Some (ErrExternal ''connection reset by peer'')) None],
      socketFailed = True, stillConnected = False,
      acquireResult = acq, acquiredConnected = True\<rparr>"

definition example_upload :: "conn \<Rightarrow> int \<Rightarrow> upload_env" where
  "example_upload c off =
     \<lparr>upAcquireResult = Inr (Some c), upConnected = True, upOpenReplica = None, upLocalOpen = None,
      upSeekResult = Inr off, upWriteResult = (\<lambda>pos. None), upCloseReplica = None\<rparr>"


definition example_status :: "int \<Rightarrow> DataObjectTransferStatus" where
  "example_status n = \<lparr>Threads = n, StatusMap = Map.empty\<rparr>"

definition example_transfer :: "DataObjectTransferStatus \<Rightarrow> (nat \<Rightarrow> task_env) \<Rightarrow> transfer_env" where
  "example_transfer status envs =
     \<lparr>autoTasks = 2, bufSize = 4, localCreateErr = None, acquireMulti = Some (Inr [5, 6]),
      taskEnvs = envs, getOrNewStatus = Inr status, createStatusErr = None, writeHeaderErr = None,
      closeStatusErr = None, deleteStatusErr = None\<rparr>"

definition finishing_task :: task_env where
  "finishing_task = example_task [example_trial [chunk 4 None None, chunk 1 None None]]"


definition resuming_transfer :: transfer_env where
  "resuming_transfer = example_transfer (example_status 2) (\<lambda>i. finishing_task)"

definition example_put :: put_env where
  "example_put =
     \<lparr>statErr = None, putBufferSize = 4, hasCallback = True, putAcquire = Inr (Some 5),
      putConnected = True, putLocalOpenErr = None, putCreateErr = None,
      putReadErr = (\<lambda>pos. None), putWriteErr = (\<lambda>pos. None), putCloseErr = None,
      putReplicateErr = None, supportParallelUpload = True, putAutoTasks = 1,
      putAcquireUnmanaged = Inr (Some 6), putUnmanagedConnected = True,
      putOpenParallelErr = None, putReplicaInfoErr = None,
      putTaskEnvs = (\<lambda>i. example_upload 7 0)\<rparr>"

section \<open>Properties of the session layer\<close>

lemma minShareScan_general:
  assumes "\<forall>(c, n) \<in> set xs. 1 \<le> n"
      and "m0 = 0 \<and> r0 = None \<or> 1 \<le> m0 \<and> r0 = Some c0"
      and "minShareScan xs m0 r0 = (m, r)"
  shows "(m0 = 0 \<and> xs = [] \<longrightarrow> m = 0 \<and> r = None) \<and>
         (m0 \<noteq> 0 \<or> xs \<noteq> [] \<longrightarrow>
            1 \<le> m \<and> (\<forall>(c, n) \<in> set xs. m \<le> n) \<and>
            (\<exists>c. r = Some c \<and> ((c, m) \<in> set xs \<or> (m0 \<noteq> 0 \<and> m = m0 \<and> c = c0 \<and> r0 = Some c0))) \<and>
            (m0 \<noteq> 0 \<longrightarrow> m \<le> m0))"
  using assms
proof (induction xs arbitrary: m0 r0 c0)
  case Nil
  then show ?case by auto
next
  case (Cons a xs)
  obtain c n where a: "a = (c, n)" by (cases a)
  have n1: "1 \<le> n" using Cons.prems(1) a by auto
  have rest: "\<forall>(c, n) \<in> set xs. 1 \<le> n" using Cons.prems(1) by auto
  show ?case
  proof (cases "m0 = 0 \<or> n < m0")
    case True
    show ?thesis
    proof (cases "n = 1")
      case True
      with \<open>m0 = 0 \<or> n < m0\<close> Cons.prems a rest show ?thesis by (auto split: if_splits)
    next
      case False
      with True Cons.prems a have scan: "minShareScan xs n (Some c) = (m, r)" by (auto split: if_splits)
      from Cons.IH[OF rest _ scan, of c] n1 False
      have ih: "1 \<le> m \<and> (\<forall>(c, n) \<in> set xs. m \<le> n) \<and>
            (\<exists>c'. r = Some c' \<and> ((c', m) \<in> set xs \<or> (m = n \<and> c' = c))) \<and> m \<le> n"
        by auto
      with True Cons.prems(2) a show ?thesis by auto
    qed
  next
    case False
    then have m0: "1 \<le> m0" "r0 = Some c0" "m0 \<le> n" using Cons.prems(2) by auto
    show ?thesis
    proof (cases "m0 = 1")
      case True
      with False Cons.prems a rest m0 show ?thesis by (auto split: if_splits)
    next
      case m1: False
      with False Cons.prems a have scan: "minShareScan xs m0 r0 = (m, r)" by (auto split: if_splits)
      from Cons.IH[OF rest _ scan, of c0] m0
      have ih: "1 \<le> m \<and> (\<forall>(c, n) \<in> set xs. m \<le> n) \<and>
            (\<exists>c'. r = Some c' \<and> ((c', m) \<in> set xs \<or> (m = m0 \<and> c' = c0))) \<and> m \<le> m0"
        by auto
      with False m0 a show ?thesis by auto
    qed
  qed
qed

lemma shareLoop_empty_diverges:
  "0 < need \<Longrightarrow> shareLoop need [] conns = None"
proof (rule ccontr)
  assume pos: "0 < need" and "shareLoop need [] conns \<noteq> None"
  then obtain y where y: "shareLoop need [] conns = Some y" by auto
  have "\<not> (0 < need \<and> ([]::(conn \<times> int) list) = [])"
  proof (rule shareLoop.raw_induct[where P = "\<lambda>n sh cs y. \<not> (0 < n \<and> sh = [])", OF _ y])
    fix f :: "int \<Rightarrow> (conn \<times> int) list \<Rightarrow> conn list \<Rightarrow> ((conn \<times> int) list \<times> conn list) option"
      and n sh cs r
    assume ih: "\<And>n sh cs r. f n sh cs = Some r \<Longrightarrow> \<not> (0 < n \<and> sh = [])"
      and step: "(if 0 < n then case shareRound sh n sh cs of (need1, shared1, connections1) \<Rightarrow> f need1 shared1 connections1
                  else Some (sh, cs)) = Some r"
    show "\<not> (0 < n \<and> sh = [])"
    proof
      assume a: "0 < n \<and> sh = []"
      with step have "f n [] cs = Some r" by simp
      from ih[OF this] a show False by simp
    qed
  qed
  with pos show False by simp
qed

lemma poolCall_simps:
  "sharedConnections (poolCall c sess) = sharedConnections sess"
  "startNewTransaction (poolCall c sess) = startNewTransaction sess"
  "poormansRollbackFail (poolCall c sess) = poormansRollbackFail sess"
  "connectionPoolFailures (poolCall c sess) = connectionPoolFailures sess"
  "connectionPool (poolCall c sess) = connectionPool sess @ [c]"
  by (simp_all add: poolCall_def)

text \<open>
  C8. When the client user of the account is the literal \<open>anonymous\<close>, every session that
  \<^verbatim>\<open>NewIRODSSession\<close> returns has \<open>startNewTransaction\<close> false and
  \<open>poormansRollbackFail\<close> true, whatever \<open>StartNewTransaction\<close> the configuration asks
  for and whatever the rollback probe would answer; and a session is returned as soon as
  the pool could be created.
\<close>

theorem NewIRODSSession_anonymous:
  "ClientUser acct = ''anonymous'' \<Longrightarrow>
     (\<forall>sess. NewIRODSSession acct cfg newPool testGet testRollback = Inr sess \<longrightarrow>
        \<not> startNewTransaction sess \<and> poormansRollbackFail sess) \<and>
     (\<exists>sess. NewIRODSSession acct cfg None testGet testRollback = Inr sess)"
  by (auto simp: NewIRODSSession_def Let_def split: option.splits)

theorem NewIRODSSession_anonymous_witness:
  "\<exists>sess. NewIRODSSession \<lparr>ClientUser = ''anonymous'', DefaultResource = ''demoResc''\<rparr>
             \<lparr>StartNewTransaction = True, ConnectionMaxNumber = 4\<rparr>
             None (Inr (0, False)) None = Inr sess \<and>
          \<not> startNewTransaction sess \<and> poormansRollbackFail sess"
  using NewIRODSSession_anonymous
    [of "\<lparr>ClientUser = ''anonymous'', DefaultResource = ''demoResc''\<rparr>"
        "\<lparr>StartNewTransaction = True, ConnectionMaxNumber = 4\<rparr>" None "Inr (0, False)" None]
  by auto

text \<open>
  C7. \<^verbatim>\<open>ReturnConnection(c)\<close>: for a connection that is not a key of the share map the
  call returns \<^verbatim>\<open>nil\<close> and leaves the session as it was. For a key with count \<open>n > 1\<close>
  the count becomes \<open>n - 1\<close> and the pool is not called. For a key whose count reaches
  zero the key is removed and exactly one pool call is made: \<^verbatim>\<open>Discard(c)\<close> if
  \<open>startNewTransaction\<close> and \<open>poormansRollbackFail\<close> are both set, \<^verbatim>\<open>Return(c)\<close>
  otherwise.
\<close>

theorem ReturnConnection_cases:
  assumes "ReturnConnection env c sess = (r, sess')"
  shows "(map_of (sharedConnections sess) c = None \<longrightarrow> r = None \<and> sess' = sess) \<and>
         (\<forall>n. map_of (sharedConnections sess) c = Some n \<and> 1 < n \<longrightarrow>
              r = None \<and>
              map_of (sharedConnections sess') = (map_of (sharedConnections sess))(c \<mapsto> n - 1) \<and>
              connectionPool sess' = connectionPool sess) \<and>
         (\<forall>n. map_of (sharedConnections sess) c = Some n \<and> n \<le> 1 \<longrightarrow>
              map_of (sharedConnections sess') = (map_of (sharedConnections sess))(c := None) \<and>
              connectionPool sess' = connectionPool sess @
                [if startNewTransaction sess \<and> poormansRollbackFail sess
                 then PoolDiscard c else PoolReturn c] \<and>
              r = (if startNewTransaction sess \<and> poormansRollbackFail sess
                   then None else poolReturnResult env)) \<and>
         startNewTransaction sess' = startNewTransaction sess \<and>
         poormansRollbackFail sess' = poormansRollbackFail sess"
  using assms
  by (auto simp: ReturnConnection_def Let_def poolCall_simps update_conv' delete_conv'
           split: option.splits if_splits)

lemma getConnectionFromPool_keeps:
  "getConnectionFromPool env sess = (r, sess1) \<Longrightarrow>
     sharedConnections sess1 = sharedConnections sess \<and>
     connectionPoolFailures sess1 = connectionPoolFailures sess"
  by (auto simp: getConnectionFromPool_def Let_def poolCall_simps
           split: sum.splits if_splits option.splits prod.splits)

lemma shareInUse_empty:
  assumes "sharedConnections sess = []" and "shareInUse sess = (r, sess')"
  shows "r = Inl (ErrMsg ''failed to get a shared connection'') \<and>
         connectionPoolFailures sess' = connectionPoolFailures sess + 1 \<and>
         sharedConnections sess' = []"
  using assms by (auto simp: shareInUse_def)

lemma shareInUse_min:
  assumes ne: "sharedConnections sess \<noteq> []"
      and pos: "\<forall>(c, n) \<in> set (sharedConnections sess). 1 \<le> n"
      and dist: "distinct (map fst (sharedConnections sess))"
      and res: "shareInUse sess = (r, sess')"
  shows "\<exists>c n. r = Inr c \<and> map_of (sharedConnections sess) c = Some n \<and>
               (\<forall>(c', n') \<in> set (sharedConnections sess). n \<le> n') \<and>
               map_of (sharedConnections sess') = (map_of (sharedConnections sess))(c \<mapsto> n + 1) \<and>
               connectionPoolFailures sess' = connectionPoolFailures sess"
proof -
  obtain m mc where scan: "minShareScan (sharedConnections sess) 0 None = (m, mc)"
    by (cases "minShareScan (sharedConnections sess) 0 None")
  from minShareScan_general[OF pos _ scan, of undefined] ne
  obtain c where c: "mc = Some c" "(c, m) \<in> set (sharedConnections sess)"
    and least: "\<forall>(c', n') \<in> set (sharedConnections sess). m \<le> n'"
    by auto
  from c(2) dist have look: "map_of (sharedConnections sess) c = Some m" by simp
  from res scan c(1) have "r = Inr c"
    and "sess' = sess\<lparr>sharedConnections := AList.update c (m + 1) (sharedConnections sess)\<rparr>"
    by (auto simp: shareInUse_def)
  with look least show ?thesis by (auto simp: update_conv')
qed

lemma shareInUse_first_one:
  "sharedConnections sess = (c, 1) # rest \<Longrightarrow> fst (shareInUse sess) = Inr c"
  by (simp add: shareInUse_def)

text \<open>
  C6. When \<^verbatim>\<open>AcquireConnection\<close> gets no connection from the pool (no connection is
  available, or \<^verbatim>\<open>getConnectionFromPool\<close> fails) and the share map is well formed
  (distinct keys, counts at least 1): with an empty share map the call fails and the
  pool-failure counter goes up by one; otherwise it returns a key of the share map whose
  count is the smallest of all, and that count is incremented. The break at a count of 1
  does not change this; in particular an entry with count 1 that is visited first is the
  one returned.
\<close>

theorem AcquireConnection_shares_minimum:
  assumes nopool: "poolAvailable env \<le> 0 \<or> isl (fst (getConnectionFromPool env sess))"
      and pos: "\<forall>(c, n) \<in> set (sharedConnections sess). 1 \<le> n"
      and dist: "distinct (map fst (sharedConnections sess))"
      and res: "AcquireConnection env sess = (r, sess')"
  shows "(sharedConnections sess = [] \<longrightarrow>
            r = Inl (ErrMsg ''failed to get a shared connection'') \<and>
            connectionPoolFailures sess' = connectionPoolFailures sess + 1 \<and>
            sharedConnections sess' = []) \<and>
         (sharedConnections sess \<noteq> [] \<longrightarrow>
            (\<exists>c n. r = Inr c \<and> map_of (sharedConnections sess) c = Some n \<and>
                   (\<forall>(c', n') \<in> set (sharedConnections sess). n \<le> n') \<and>
                   map_of (sharedConnections sess') = (map_of (sharedConnections sess))(c \<mapsto> n + 1) \<and>
                   connectionPoolFailures sess' = connectionPoolFailures sess)) \<and>
         (\<forall>c rest. sharedConnections sess = (c, 1) # rest \<longrightarrow> r = Inr c)"
proof -
  obtain sess1 where s1: "shareInUse sess1 = (r, sess')"
    and keep: "sharedConnections sess1 = sharedConnections sess"
              "connectionPoolFailures sess1 = connectionPoolFailures sess"
  proof (cases "poolAvailable env > 0")
    case False
    with res have "shareInUse sess = (r, sess')" by (simp add: AcquireConnection_def)
    then show ?thesis using that by blast
  next
    case True
    with nopool obtain e s where g: "getConnectionFromPool env sess = (Inl e, s)"
      by (cases "getConnectionFromPool env sess") (auto simp: isl_def)
    with True res have "shareInUse s = (r, sess')" by (simp add: AcquireConnection_def)
    with getConnectionFromPool_keeps[OF g] show ?thesis using that by blast
  qed
  have a: "sharedConnections sess = [] \<longrightarrow>
            r = Inl (ErrMsg ''failed to get a shared connection'') \<and>
            connectionPoolFailures sess' = connectionPoolFailures sess + 1 \<and>
            sharedConnections sess' = []"
    using shareInUse_empty[OF _ s1] keep by simp
  have b: "sharedConnections sess \<noteq> [] \<longrightarrow>
            (\<exists>c n. r = Inr c \<and> map_of (sharedConnections sess) c = Some n \<and>
                   (\<forall>(c', n') \<in> set (sharedConnections sess). n \<le> n') \<and>
                   map_of (sharedConnections sess') = (map_of (sharedConnections sess))(c \<mapsto> n + 1) \<and>
                   connectionPoolFailures sess' = connectionPoolFailures sess)"
    using shareInUse_min[OF _ _ _ s1] keep pos dist by simp
  have c: "\<forall>c rest. sharedConnections sess = (c, 1) # rest \<longrightarrow> r = Inr c"
    using shareInUse_first_one[of sess1] s1 keep by auto
  from a b c show ?thesis by blast
qed




theorem AcquireConnection_shares_minimum_witness:
  "(\<exists>c n. fst (AcquireConnection pool_exhausted (example_session [(7, 3), (8, 2), (9, 2)])) = Inr c \<and>
          map_of (sharedConnections (example_session [(7, 3), (8, 2), (9, 2)])) c = Some n \<and>
          (\<forall>(c', n') \<in> set (sharedConnections (example_session [(7, 3), (8, 2), (9, 2)])). n \<le> n')) \<and>
   fst (AcquireConnection pool_unreachable (example_session [])) =
     Inl (ErrMsg ''failed to get a shared connection'')"
proof -
  let ?s = "example_session [(7, 3), (8, 2), (9, 2)]"
  have sh: "sharedConnections ?s = [(7, 3), (8, 2), (9, 2)]" "sharedConnections (example_session []) = []"
    by (simp_all add: example_session_def)
  have h1: "poolAvailable pool_exhausted \<le> 0 \<or> isl (fst (getConnectionFromPool pool_exhausted ?s))"
    by (simp add: pool_exhausted_def)
  have h2: "\<forall>(c, n) \<in> set (sharedConnections ?s). 1 \<le> n" by (simp add: sh)
  have h3: "distinct (map fst (sharedConnections ?s))" by (simp add: sh)
  have ne: "sharedConnections ?s \<noteq> []" by (simp add: sh)
  have a: "\<exists>c n. fst (AcquireConnection pool_exhausted ?s) = Inr c \<and>
          map_of (sharedConnections ?s) c = Some n \<and>
          (\<forall>(c', n') \<in> set (sharedConnections ?s). n \<le> n')"
    using AcquireConnection_shares_minimum[OF h1 h2 h3 surjective_pairing] ne by blast
  let ?e = "example_session []"
  have g1: "poolAvailable pool_unreachable \<le> 0 \<or> isl (fst (getConnectionFromPool pool_unreachable ?e))"
    by (simp add: pool_unreachable_def getConnectionFromPool_def)
  have g2: "\<forall>(c, n) \<in> set (sharedConnections ?e). 1 \<le> n" by (simp add: sh)
  have g3: "distinct (map fst (sharedConnections ?e))" by (simp add: sh)
  have b: "fst (AcquireConnection pool_unreachable ?e) = Inl (ErrMsg ''failed to get a shared connection'')"
    using AcquireConnection_shares_minimum[OF g1 g2 g3 surjective_pairing] sh(2) by blast
  from a b show ?thesis by blast
qed

theorem ReturnConnection_cases_witness:
  "ReturnConnection pool_exhausted 5 (example_session [(7, 2), (8, 1)]) =
     (None, example_session [(7, 2), (8, 1)]) \<and>
   map_of (sharedConnections (snd (ReturnConnection pool_exhausted 7 (example_session [(7, 2), (8, 1)]))))
     = [7 \<mapsto> 1, 8 \<mapsto> 1] \<and>
   map_of (sharedConnections (snd (ReturnConnection pool_exhausted 8 (example_session [(7, 2), (8, 1)]))))
     = [7 \<mapsto> 2] \<and>
   connectionPool (snd (ReturnConnection pool_exhausted 8 (example_session [(7, 2), (8, 1)])))
     = [PoolReturn 8]"
proof -
  let ?s = "example_session [(7, 2), (8, 1)]"
  have sh: "sharedConnections ?s = [(7, 2), (8, 1)]" "connectionPool ?s = []"
           "\<not> (startNewTransaction ?s \<and> poormansRollbackFail ?s)"
    by (simp_all add: example_session_def)
  have a: "ReturnConnection pool_exhausted 5 ?s = (None, ?s)"
    using ReturnConnection_cases[where env = pool_exhausted and c = 5 and sess = ?s, OF surjective_pairing]
    by (simp add: sh prod_eq_iff)
  have b: "map_of (sharedConnections (snd (ReturnConnection pool_exhausted 7 ?s))) = [7 \<mapsto> 1, 8 \<mapsto> 1]"
    using ReturnConnection_cases[where env = pool_exhausted and c = 7 and sess = ?s, OF surjective_pairing]
    by (auto simp add: sh)
  have c: "map_of (sharedConnections (snd (ReturnConnection pool_exhausted 8 ?s))) = [7 \<mapsto> 2] \<and>
           connectionPool (snd (ReturnConnection pool_exhausted 8 ?s)) = [PoolReturn 8]"
    using ReturnConnection_cases[where env = pool_exhausted and c = 8 and sess = ?s, OF surjective_pairing]
    by (auto simp add: sh)
  from a b c show ?thesis by blast
qed

lemma poolPhase_stops:
  "poolAvailable (envs i) \<le> 0 \<or> isl (poolGetResult (envs i)) \<Longrightarrow>
     sharedConnections (fst (poolPhase envs i k sess conns)) = sharedConnections sess \<and>
     snd (poolPhase envs i k sess conns) = conns"
  by (cases k) (auto simp: getConnectionFromPool_def Let_def poolCall_simps isl_def split: sum.splits)

lemma AcquireConnectionsMulti_empty_diverges:
  assumes "1 \<le> number" and "sharedConnections sess = []"
      and "poolAvailable (envs 0) \<le> 0 \<or> isl (poolGetResult (envs 0))"
  shows "AcquireConnectionsMulti envs number sess = None"
proof -
  obtain sess1 conns where p: "poolPhase envs 0 (nat number) sess [] = (sess1, conns)"
    by (cases "poolPhase envs 0 (nat number) sess []")
  with poolPhase_stops[where envs = envs and i = 0 and k = "nat number" and sess = sess and conns = "[]", OF assms(3)] assms(2)
  have "sharedConnections sess1 = []" "conns = []" by auto
  with p assms(1) show ?thesis
    by (simp add: AcquireConnectionsMulti_def shareLoop_empty_diverges)
qed

text \<open>
  C2. \<^verbatim>\<open>AcquireConnectionsMulti(1)\<close> on a session whose share map is empty never
  returns when the pool gives no connection, be it because no connection is available
  or because \<^verbatim>\<open>Get()\<close> fails: the loop \<^verbatim>\<open>for connectionsInNeed > 0\<close> ranges over an
  empty map and \<^verbatim>\<open>connectionsInNeed\<close> stays at 1.
\<close>

theorem AcquireConnectionsMulti_never_returns:
  "AcquireConnectionsMulti (\<lambda>i. pool_exhausted) 1 (example_session []) = None \<and>
   AcquireConnectionsMulti (\<lambda>i. pool_unreachable) 1 (example_session []) = None"
  by (simp add: AcquireConnectionsMulti_empty_diverges example_session_def pool_exhausted_def
        pool_unreachable_def)

section \<open>Properties of the download workers\<close>

lemma emit_simps:
  "lastOffset (emit e st) = lastOffset st"
  "taskRemain (emit e st) = taskRemain st"
  "events (emit e st) = events st @ [e]"
  by (simp_all add: emit_def)

lemma enqueued_append: "enqueued (xs @ ys) = enqueued xs @ enqueued ys"
  by (induction xs rule: enqueued.induct) simp_all

lemma chunkWritten_simps:
  "taskRemain (chunkWritten p n st) = taskRemain st - n"
  "lastOffset (chunkWritten p n st) = lastOffset st + n"
  "enqueued (events (chunkWritten p n st)) = enqueued (events st)"
  by (simp_all add: chunkWritten_def Let_def emit_simps enqueued_append)


lemma copyLoop_progress:
  "lastOffset (snd (copyLoop p c envs st)) + taskRemain (snd (copyLoop p c envs st))
     = lastOffset st + taskRemain st"
  by (induction p c envs st rule: copyLoop.induct)
     (auto simp: Let_def emit_simps chunkWritten_simps split: option.splits)






lemma prefix_emit: "prefix xs (events st) \<Longrightarrow> prefix xs (events (emit e st))"
  by (auto simp: emit_simps prefix_def)

lemma prefix_chunkWritten: "prefix xs (events st) \<Longrightarrow> prefix xs (events (chunkWritten p n st))"
  by (auto simp: chunkWritten_def Let_def emit_simps prefix_def)

lemma copyLoop_prefix: "prefix xs (events st) \<Longrightarrow> prefix xs (events (snd (copyLoop p c envs st)))"
proof (induction envs arbitrary: st)
  case Nil
  then show ?case by simp
next
  case (Cons e envs)
  let ?st1 = "emit (EvRead c (if taskRemain st < bufferSize p then taskRemain st else bufferSize p)) st"
  let ?st2 = "if bytesRead e > 0 then chunkWritten p (bytesRead e) ?st1 else ?st1"
  have 1: "prefix xs (events ?st1)" using Cons.prems by (rule prefix_emit)
  then have 2: "prefix xs (events ?st2)" by (simp add: prefix_chunkWritten)
  from Cons.IH[OF 2] 1 2 Cons.prems show ?case
    by (auto simp: Let_def prefix_emit split: option.splits)
qed

lemma trial_prefix: "prefix xs (events st) \<Longrightarrow> prefix xs (events (snd (trial p c env st)))"
  by (auto simp: trial_def Let_def split: option.splits sum.splits prod.splits outcome.splits
           intro!: prefix_emit copyLoop_prefix dest: sndI)


lemma retryLoop_prefix: "prefix xs (events st) \<Longrightarrow> prefix xs (events (snd (retryLoop p c envs st)))"
proof (induction envs arbitrary: c st)
  case Nil
  then show ?case by simp
next
  case (Cons env envs)
  obtain r st1 where t: "trial p c env st = (r, st1)" by (cases "trial p c env st")
  from trial_prefix[OF Cons.prems, of p c env] t have 1: "prefix xs (events st1)" by simp
  then have 2: "prefix xs (events (emit EvAcquireConnection (emit (EvReturnConnection (Some c)) st1)))"
    by (intro prefix_emit)
  show ?case
    using t 1 2 Cons.IH[OF 2]
    by (auto simp: prefix_emit Let_def split: outcome.splits option.splits sum.splits)
qed

lemma trial_seeks_to_lastOffset:
  assumes "openResult env = None" and "0 < lastOffset st"
  shows "prefix (events st @ [EvOpenDataObject c, EvSeekDataObject c (lastOffset st)])
           (events (snd (trial p c env st)))"
proof -
  have key: "prefix (events st @ [EvOpenDataObject c, EvSeekDataObject c (lastOffset st)])
               (events (emit (EvSeekDataObject c (lastOffset st)) (emit (EvOpenDataObject c) st)))"
    by (simp add: emit_simps)
  have lo: "lastOffset (emit (EvOpenDataObject c) st) = lastOffset st" by (simp add: emit_simps)
  show ?thesis
    using assms key
    by (auto simp: trial_def Let_def lo split: sum.splits prod.splits outcome.splits
             intro!: prefix_emit copyLoop_prefix dest: sndI)
qed

lemma retryLoop_seeks_to_lastOffset:
  assumes "openResult env = None" and "0 < lastOffset st"
  shows "prefix (events st @ [EvOpenDataObject c, EvSeekDataObject c (lastOffset st)])
           (events (snd (retryLoop p c (env # rest) st)))"
proof -
  obtain r st1 where t: "trial p c env st = (r, st1)" by (cases "trial p c env st")
  from trial_seeks_to_lastOffset[OF assms, of c p] t
  have 1: "prefix (events st @ [EvOpenDataObject c, EvSeekDataObject c (lastOffset st)]) (events st1)"
    by simp
  then have 2: "prefix (events st @ [EvOpenDataObject c, EvSeekDataObject c (lastOffset st)])
                  (events (emit EvAcquireConnection (emit (EvReturnConnection (Some c)) st1)))"
    by (intro prefix_emit)
  show ?thesis
    using t 1 2 retryLoop_prefix[OF 2]
    by (auto simp: prefix_emit Let_def split: outcome.splits option.splits sum.splits)
qed

lemma retryLoop_failing_trials:
  assumes "\<forall>x \<in> set fails. openResult x \<noteq> None \<and> socketFailed x \<and>
             acquireResult x = Inr (Some c) \<and> acquiredConnected x"
  shows "retryLoop p c (fails @ rest) st =
           retryLoop p c rest
             (st\<lparr>events := events st @
                   concat (map (\<lambda>x. [EvOpenDataObject c, EvReturnConnection (Some c), EvAcquireConnection]) fails)\<rparr>)"
  using assms
proof (induction fails arbitrary: st)
  case Nil
  then show ?case by simp
next
  case (Cons x fails)
  then obtain err where x: "openResult x = Some err" "socketFailed x"
      "acquireResult x = Inr (Some c)" "acquiredConnected x" by auto
  let ?st2 = "emit EvAcquireConnection (emit (EvReturnConnection (Some c)) (emit (EvOpenDataObject c) st))"
  have "retryLoop p c ((x # fails) @ rest) st = retryLoop p c (fails @ rest) ?st2"
    using x by (simp add: trial_def Let_def)
  also have "\<dots> = retryLoop p c rest
             (?st2\<lparr>events := events ?st2 @
                   concat (map (\<lambda>x. [EvOpenDataObject c, EvReturnConnection (Some c), EvAcquireConnection]) fails)\<rparr>)"
    using Cons.prems by (intro Cons.IH) simp
  finally show ?case by (simp add: emit_def)
qed

text \<open>
  C4 (as amended). When a trial of a download worker fails with \<open>trialErr\<close>:
  if the socket-failed flag of the connection is not set, the worker puts \<open>trialErr\<close> on
  \<^verbatim>\<open>errChan\<close> and returns, whatever trials could follow. If the flag is set, the worker
  returns the connection to the session and acquires one; when that gives a connected
  connection, the worker goes on with the next trial on it, with \<open>lastOffset\<close> and
  \<open>taskRemain\<close> as the failed trial left them, and the next trial opens the data object
  and seeks to that \<open>lastOffset\<close> (when it is positive); when the acquisition fails or
  gives no connected connection, the worker puts one error on \<^verbatim>\<open>errChan\<close> and returns.
  There is no bound on the retries: any number of trials that fail on the socket is
  followed by the next trial.
\<close>

theorem worker_retry_policy:
  assumes "trial p c env st = (Returned (Some trialErr), st1)"
  shows "(\<not> socketFailed env \<longrightarrow>
            retryLoop p c (env # rest) st = (Returned (Some c), emit (EvEnqueue trialErr) st1)) \<and>
         (\<forall>newConn. socketFailed env \<and> acquireResult env = Inr (Some newConn) \<and> acquiredConnected env \<longrightarrow>
            retryLoop p c (env # rest) st =
              retryLoop p newConn rest
                (st1\<lparr>events := events st1 @ [EvReturnConnection (Some c), EvAcquireConnection]\<rparr>) \<and>
            (\<forall>env' rest'. rest = env' # rest' \<and> openResult env' = None \<and> 0 < lastOffset st1 \<longrightarrow>
               prefix (events st1 @ [EvReturnConnection (Some c), EvAcquireConnection,
                                     EvOpenDataObject newConn, EvSeekDataObject newConn (lastOffset st1)])
                 (events (snd (retryLoop p c (env # rest) st))))) \<and>
         (socketFailed env \<and> \<not> (\<exists>newConn. acquireResult env = Inr (Some newConn) \<and> acquiredConnected env) \<longrightarrow>
            (\<exists>finalConn err.
               retryLoop p c (env # rest) st =
                 (Returned finalConn,
                  st1\<lparr>events := events st1 @
                        [EvReturnConnection (Some c), EvAcquireConnection, EvEnqueue err]\<rparr>))) \<and>
         (\<forall>fails. (\<forall>x \<in> set fails. openResult x \<noteq> None \<and> socketFailed x \<and>
                       acquireResult x = Inr (Some c) \<and> acquiredConnected x) \<longrightarrow>
            retryLoop p c (fails @ rest) st =
              retryLoop p c rest
                (st\<lparr>events := events st @
                   concat (map (\<lambda>x. [EvOpenDataObject c, EvReturnConnection (Some c), EvAcquireConnection])
                             fails)\<rparr>))"
proof -
  have a: "\<not> socketFailed env \<longrightarrow>
            retryLoop p c (env # rest) st = (Returned (Some c), emit (EvEnqueue trialErr) st1)"
    using assms by simp
  have b: "\<forall>newConn. socketFailed env \<and> acquireResult env = Inr (Some newConn) \<and> acquiredConnected env \<longrightarrow>
            retryLoop p c (env # rest) st =
              retryLoop p newConn rest
                (st1\<lparr>events := events st1 @ [EvReturnConnection (Some c), EvAcquireConnection]\<rparr>) \<and>
            (\<forall>env' rest'. rest = env' # rest' \<and> openResult env' = None \<and> 0 < lastOffset st1 \<longrightarrow>
               prefix (events st1 @ [EvReturnConnection (Some c), EvAcquireConnection,
                                     EvOpenDataObject newConn, EvSeekDataObject newConn (lastOffset st1)])
                 (events (snd (retryLoop p c (env # rest) st))))"
  proof (intro allI impI)
    fix newConn
    assume h: "socketFailed env \<and> acquireResult env = Inr (Some newConn) \<and> acquiredConnected env"
    let ?st2 = "st1\<lparr>events := events st1 @ [EvReturnConnection (Some c), EvAcquireConnection]\<rparr>"
    have eq: "retryLoop p c (env # rest) st = retryLoop p newConn rest ?st2"
      using assms h by (simp add: emit_def Let_def)
    have "\<forall>env' rest'. rest = env' # rest' \<and> openResult env' = None \<and> 0 < lastOffset st1 \<longrightarrow>
               prefix (events st1 @ [EvReturnConnection (Some c), EvAcquireConnection,
                                     EvOpenDataObject newConn, EvSeekDataObject newConn (lastOffset st1)])
                 (events (snd (retryLoop p c (env # rest) st)))"
    proof (intro allI impI)
      fix env' rest'
      assume r: "rest = env' # rest' \<and> openResult env' = None \<and> 0 < lastOffset st1"
      then have "prefix (events ?st2 @ [EvOpenDataObject newConn, EvSeekDataObject newConn (lastOffset ?st2)])
                   (events (snd (retryLoop p newConn (env' # rest') ?st2)))"
        by (intro retryLoop_seeks_to_lastOffset) simp_all
      with r eq show "prefix (events st1 @ [EvReturnConnection (Some c), EvAcquireConnection,
                                     EvOpenDataObject newConn, EvSeekDataObject newConn (lastOffset st1)])
                 (events (snd (retryLoop p c (env # rest) st)))"
        by simp
    qed
    with eq show "retryLoop p c (env # rest) st = retryLoop p newConn rest ?st2 \<and>
            (\<forall>env' rest'. rest = env' # rest' \<and> openResult env' = None \<and> 0 < lastOffset st1 \<longrightarrow>
               prefix (events st1 @ [EvReturnConnection (Some c), EvAcquireConnection,
                                     EvOpenDataObject newConn, EvSeekDataObject newConn (lastOffset st1)])
                 (events (snd (retryLoop p c (env # rest) st))))"
      by blast
  qed
  have c: "socketFailed env \<and> \<not> (\<exists>newConn. acquireResult env = Inr (Some newConn) \<and> acquiredConnected env) \<longrightarrow>
            (\<exists>finalConn err.
               retryLoop p c (env # rest) st =
                 (Returned finalConn,
                  st1\<lparr>events := events st1 @
                        [EvReturnConnection (Some c), EvAcquireConnection, EvEnqueue err]\<rparr>))"
    using assms by (auto simp: emit_def Let_def split: sum.splits option.splits)
  have d: "\<forall>fails. (\<forall>x \<in> set fails. openResult x \<noteq> None \<and> socketFailed x \<and>
                       acquireResult x = Inr (Some c) \<and> acquiredConnected x) \<longrightarrow>
            retryLoop p c (fails @ rest) st =
              retryLoop p c rest
                (st\<lparr>events := events st @
                   concat (map (\<lambda>x. [EvOpenDataObject c, EvReturnConnection (Some c), EvAcquireConnection])
                             fails)\<rparr>)"
    using retryLoop_failing_trials by blast
  from a b c d show ?thesis by blast
qed

theorem worker_retry_policy_witness:
  "trial example_params 5 (socket_failure_trial (Inr (Some 6))) \<lparr>lastOffset = 0, taskRemain = 10, events = []\<rparr>
     = (Returned (Some (ErrWrap ''failed to read from data object'' (ErrExternal ''connection reset by peer''))),
        \<lparr>lastOffset = 4, taskRemain = 6, events = [EvOpenDataObject 5, EvRead 5 4, EvWriteAt 0 4, EvRead 5 4]\<rparr>) \<and>
   retryLoop example_params 5
       [socket_failure_trial (Inr (Some 6)), example_trial [chunk 4 None None, chunk 2 None None]]
       \<lparr>lastOffset = 0, taskRemain = 10, events = []\<rparr>
     = (Returned (Some 6),
        \<lparr>lastOffset = 10, taskRemain = 0,
         events = [EvOpenDataObject 5, EvRead 5 4, EvWriteAt 0 4, EvRead 5 4,
                   EvReturnConnection (Some 5), EvAcquireConnection,
                   EvOpenDataObject 6, EvSeekDataObject 6 4, EvLocalSeek 4,
                   EvRead 6 4, EvWriteAt 4 4, EvRead 6 2, EvWriteAt 8 2, EvCloseDataObject 6]\<rparr>)"
proof -
  let ?st = "\<lparr>lastOffset = 0, taskRemain = 10, events = []\<rparr>"
  let ?st1 = "\<lparr>lastOffset = 4, taskRemain = 6,
               events = [EvOpenDataObject 5, EvRead 5 4, EvWriteAt 0 4, EvRead 5 4]\<rparr>"
  have t: "trial example_params 5 (socket_failure_trial (Inr (Some 6))) ?st
     = (Returned (Some (ErrWrap ''failed to read from data object'' (ErrExternal ''connection reset by peer''))), ?st1)"
    by (simp add: trial_def socket_failure_trial_def example_params_def chunk_def emit_def
          chunkWritten_def Let_def)
  have flags: "socketFailed (socket_failure_trial (Inr (Some 6)))"
    "acquireResult (socket_failure_trial (Inr (Some 6))) = Inr (Some 6)"
    "acquiredConnected (socket_failure_trial (Inr (Some 6)))"
    by (simp_all add: socket_failure_trial_def)
  from worker_retry_policy[OF t, of "[example_trial [chunk 4 None None, chunk 2 None None]]"] flags
  have "retryLoop example_params 5
          [socket_failure_trial (Inr (Some 6)), example_trial [chunk 4 None None, chunk 2 None None]] ?st
        = retryLoop example_params 6 [example_trial [chunk 4 None None, chunk 2 None None]]
            (?st1\<lparr>events := events ?st1 @ [EvReturnConnection (Some 5), EvAcquireConnection]\<rparr>)"
    by blast
  also have "\<dots> = (Returned (Some 6),
        \<lparr>lastOffset = 10, taskRemain = 0,
         events = [EvOpenDataObject 5, EvRead 5 4, EvWriteAt 0 4, EvRead 5 4,
                   EvReturnConnection (Some 5), EvAcquireConnection,
                   EvOpenDataObject 6, EvSeekDataObject 6 4, EvLocalSeek 4,
                   EvRead 6 4, EvWriteAt 4 4, EvRead 6 2, EvWriteAt 8 2, EvCloseDataObject 6]\<rparr>)"
    by (simp add: trial_def example_trial_def example_params_def chunk_def emit_def
          chunkWritten_def Let_def)
  finally show ?thesis using t by simp
qed

text \<open>
  C4, the claim as stated fails: the trial fails with the socket-failed flag set, but
  \<^verbatim>\<open>AcquireConnection\<close> fails; the worker puts that error on \<^verbatim>\<open>errChan\<close> and returns
  without a second trial, although one that would succeed is at hand.
\<close>

theorem worker_socket_failure_without_retry:
  "downloadTask example_params None [5]
     (example_task [socket_failure_trial (Inl (ErrMsg ''failed to get a shared connection'')),
                    example_trial [chunk 4 None None, chunk 2 None None]])
   = Returned [EvOpenDataObject 5, EvRead 5 4, EvWriteAt 0 4, EvRead 5 4,
               EvReturnConnection (Some 5), EvAcquireConnection,
               EvEnqueue (ErrWrap ''failed to get connection'' (ErrMsg ''failed to get a shared connection'')),
               EvReturnConnection None]"
  by (simp add: downloadTask_def example_params_def example_task_def socket_failure_trial_def
        chunk_def trial_def emit_def chunkWritten_def Let_def)


section \<open>Properties of the partition and of the workers' byte ranges\<close>






















section \<open>Properties of the download functions\<close>

lemma os_OpenFile_result:
  "os_OpenFile osErr fs name flags = Inr fs1 \<Longrightarrow>
     fs1 name = Some (case fs name of None \<Rightarrow> [] | Some content \<Rightarrow> if O_TRUNC \<in> flags then [] else content) \<and>
     (\<forall>q. q \<noteq> name \<longrightarrow> fs1 q = fs q)"
  by (auto simp: os_OpenFile_def split: option.splits if_splits)

lemma parallel_workers_launched:
  assumes "dlWorkers (DownloadDataObjectParallel maxConn env fs localPath fileLength taskNum) \<noteq> []"
  shows "\<exists>n conns. DownloadDataObjectParallel_setup maxConn env fs localPath fileLength taskNum
           = (Launch n conns, dlFiles (DownloadDataObjectParallel maxConn env fs localPath fileLength taskNum))"
  using assms
  by (auto simp: DownloadDataObjectParallel_def Let_def split: prod.splits setup_result.splits outcome.splits)

lemma resumable_workers_launched:
  assumes "dlWorkers (DownloadDataObjectParallelResumable maxConn env fs localPath fileLength taskNum) \<noteq> []"
  shows "\<exists>n conns j st. DownloadDataObjectParallelResumable_setup maxConn env fs localPath fileLength taskNum
           = (Launch n conns, dlFiles (DownloadDataObjectParallelResumable maxConn env fs localPath fileLength taskNum), j, st)"
  using assms
  by (auto simp: DownloadDataObjectParallelResumable_def Let_def split: prod.splits setup_result.splits outcome.splits)

lemma parallel_setup_file:
  assumes "DownloadDataObjectParallel_setup maxConn env fs localPath fileLength taskNum = (Launch n conns, fs1)"
  shows "fs1 localPath = Some [] \<and> (\<forall>q. q \<noteq> localPath \<longrightarrow> fs1 q = fs q)"
proof -
  from assms obtain fs' where "os_Create (localCreateErr env) fs localPath = Inr fs'" "fs1 = fs'"
    by (auto simp: DownloadDataObjectParallel_setup_def Let_def split: if_splits sum.splits)
  with os_OpenFile_result[of "localCreateErr env" fs localPath "{O_RDWR, O_CREATE, O_TRUNC}" fs1]
  show ?thesis by (auto simp: os_Create_def split: option.splits)
qed

lemma resumable_setup_file:
  assumes "DownloadDataObjectParallelResumable_setup maxConn env fs localPath fileLength taskNum
             = (Launch n conns, fs1, j, st)"
  shows "fs1 localPath = Some (case fs localPath of None \<Rightarrow> [] | Some content \<Rightarrow> content) \<and>
         (\<forall>q. q \<noteq> localPath \<longrightarrow> fs1 q = fs q)"
proof -
  from assms have "os_OpenFile (localCreateErr env) fs localPath {O_RDWR, O_CREATE} = Inr fs1"
    by (auto simp: DownloadDataObjectParallelResumable_setup_def Let_def
             split: if_splits sum.splits option.splits)
  from os_OpenFile_result[OF this] show ?thesis by (auto split: option.splits)
qed

text \<open>
  C3 (as amended). Whenever a download function starts workers, the local file exists by
  then. After \<^verbatim>\<open>DownloadDataObjectParallel\<close> it is empty: \<^verbatim>\<open>os.Create\<close> cut it to length
  zero. After \<^verbatim>\<open>DownloadDataObjectParallelResumable\<close> it is empty when it did not exist
  and holds the bytes it held before otherwise: \<^verbatim>\<open>os.OpenFile\<close> is called with
  \<^verbatim>\<open>O_RDWR|O_CREATE\<close>, without \<^verbatim>\<open>O_TRUNC\<close>.
\<close>

theorem download_precreates_local_file:
  "(dlWorkers (DownloadDataObjectParallel maxConn env fs localPath fileLength taskNum) \<noteq> [] \<longrightarrow>
      dlFiles (DownloadDataObjectParallel maxConn env fs localPath fileLength taskNum) localPath = Some [])
   \<and>
   (dlWorkers (DownloadDataObjectParallelResumable maxConn env fs localPath fileLength taskNum) \<noteq> [] \<longrightarrow>
      dlFiles (DownloadDataObjectParallelResumable maxConn env fs localPath fileLength taskNum) localPath
        = Some (case fs localPath of None \<Rightarrow> [] | Some content \<Rightarrow> content))"
proof (intro conjI impI)
  assume "dlWorkers (DownloadDataObjectParallel maxConn env fs localPath fileLength taskNum) \<noteq> []"
  from parallel_workers_launched[OF this] obtain n conns where
    "DownloadDataObjectParallel_setup maxConn env fs localPath fileLength taskNum
       = (Launch n conns, dlFiles (DownloadDataObjectParallel maxConn env fs localPath fileLength taskNum))"
    by blast
  from parallel_setup_file[OF this]
  show "dlFiles (DownloadDataObjectParallel maxConn env fs localPath fileLength taskNum) localPath = Some []"
    by simp
next
  assume "dlWorkers (DownloadDataObjectParallelResumable maxConn env fs localPath fileLength taskNum) \<noteq> []"
  from resumable_workers_launched[OF this] obtain n conns j st where
    "DownloadDataObjectParallelResumable_setup maxConn env fs localPath fileLength taskNum
       = (Launch n conns, dlFiles (DownloadDataObjectParallelResumable maxConn env fs localPath fileLength taskNum), j, st)"
    by blast
  from resumable_setup_file[OF this]
  show "dlFiles (DownloadDataObjectParallelResumable maxConn env fs localPath fileLength taskNum) localPath
        = Some (case fs localPath of None \<Rightarrow> [] | Some content \<Rightarrow> content)"
    by simp
qed






lemmas run_defs = DownloadDataObjectParallelResumable_def DownloadDataObjectParallelResumable_setup_def
  DownloadDataObjectParallel_def DownloadDataObjectParallel_setup_def
  example_transfer_def example_status_def resolveNumTasks_def os_OpenFile_def os_Create_def
  acquireForTasks_def partitionTasks_def lengthPerThread_def go_div_def go_mod_def runTasks_def
  Let_def eval_nat_numeral case_prod_beta


theorem download_precreates_local_file_witness:
  "dlFiles (DownloadDataObjectParallel 4 (example_transfer (example_status 2) (\<lambda>i. finishing_task))
              [''out.dat'' \<mapsto> [1, 2, 3]] ''out.dat'' 10 2) ''out.dat'' = Some [] \<and>
   dlFiles (DownloadDataObjectParallelResumable 4 (example_transfer (example_status 2) (\<lambda>i. finishing_task))
              [''out.dat'' \<mapsto> [1, 2, 3]] ''out.dat'' 10 2) ''out.dat'' = Some [1, 2, 3] \<and>
   dlFiles (DownloadDataObjectParallelResumable 4 (example_transfer (example_status 2) (\<lambda>i. finishing_task))
              Map.empty ''out.dat'' 10 2) ''out.dat'' = Some []"
proof -
  let ?env = "example_transfer (example_status 2) (\<lambda>i. finishing_task)"
  have w1: "dlWorkers (DownloadDataObjectParallel 4 ?env [''out.dat'' \<mapsto> [1, 2, 3]] ''out.dat'' 10 2) \<noteq> []"
    by (simp add: run_defs)
  have w2: "dlWorkers (DownloadDataObjectParallelResumable 4 ?env [''out.dat'' \<mapsto> [1, 2, 3]] ''out.dat'' 10 2) \<noteq> []"
    by (simp add: run_defs)
  have w3: "dlWorkers (DownloadDataObjectParallelResumable 4 ?env Map.empty ''out.dat'' 10 2) \<noteq> []"
    by (simp add: run_defs)
  from download_precreates_local_file[of 4 ?env "[''out.dat'' \<mapsto> [1, 2, 3]]" "''out.dat''" 10 2] w1 w2
  have a: "dlFiles (DownloadDataObjectParallel 4 ?env [''out.dat'' \<mapsto> [1, 2, 3]] ''out.dat'' 10 2) ''out.dat'' = Some []"
    and b: "dlFiles (DownloadDataObjectParallelResumable 4 ?env [''out.dat'' \<mapsto> [1, 2, 3]] ''out.dat'' 10 2) ''out.dat'' = Some [1, 2, 3]"
    by simp_all
  from download_precreates_local_file[of 4 ?env Map.empty "''out.dat''" 10 2] w3
  have c: "dlFiles (DownloadDataObjectParallelResumable 4 ?env Map.empty ''out.dat'' 10 2) ''out.dat'' = Some []"
    by simp
  from a b c show ?thesis by (intro conjI)
qed

text \<open>
  C3, the claim as stated fails for the resumable download: a local file of three bytes
  is still three bytes long when the workers are about to be launched.
\<close>

theorem resumable_download_keeps_local_file:
  "DownloadDataObjectParallelResumable_setup 4 resuming_transfer
      [''out.dat'' \<mapsto> [1, 2, 3]] ''out.dat'' 10 2
   = (Launch 2 [5, 6], [''out.dat'' \<mapsto> [1, 2, 3]], [JCreateStatusFile, JWriteHeader],
      Some (example_status 2))"
  by (simp add: resuming_transfer_def run_defs)


section \<open>Properties of the upload functions\<close>

lemma UploadDataObject_default_resource:
  "UploadDataObject env acct fs localPath irodsPath
     (if length resource = 0 then DefaultResource acct else resource) doReplicate kw
   = UploadDataObject env acct fs localPath irodsPath resource doReplicate kw"
  by (simp add: UploadDataObject_def)

text \<open>
  C10. \<^verbatim>\<open>UploadDataObjectParallel\<close> returns what \<^verbatim>\<open>UploadDataObject\<close> returns on the same
  arguments, after the same calls and without a worker, whenever the server does not
  support parallel upload, or the local file is empty, or the task count (the argument,
  or the automatic count for an argument that is not positive) is 1; the same holds when
  \<^verbatim>\<open>os.Stat\<close> of the local file fails. The resource that the parallel function has
  already replaced by the default is replaced in the same way by the serial one.
\<close>

theorem UploadDataObjectParallel_falls_back_to_serial:
  assumes "\<not> supportParallelUpload env \<or>
           os_Stat (statErr env) fs localPath = Inr 0 \<or>
           (\<exists>fileLength. os_Stat (statErr env) fs localPath = Inr fileLength \<and>
                         (if taskNum \<le> 0 then putAutoTasks env else taskNum) = 1) \<or>
           (\<exists>err. os_Stat (statErr env) fs localPath = Inl err)"
  shows "UploadDataObjectParallel env acct fs localPath irodsPath resource taskNum doReplicate kw
         = UploadDataObject env acct fs localPath irodsPath resource doReplicate kw"
proof (cases "supportParallelUpload env")
  case False
  then show ?thesis by (simp add: UploadDataObjectParallel_def)
next
  case True
  show ?thesis
  proof (cases "os_Stat (statErr env) fs localPath")
    case (Inl err)
    with True show ?thesis
      by (simp add: UploadDataObjectParallel_def UploadDataObject_def)
  next
    case (Inr fileLength)
    with assms True have "fileLength = 0 \<or> (if taskNum \<le> 0 then putAutoTasks env else taskNum) = 1"
      by auto
    with True Inr show ?thesis
      using UploadDataObject_default_resource[of env acct fs localPath irodsPath resource doReplicate kw]
      by (auto simp: UploadDataObjectParallel_def Let_def)
  qed
qed

theorem UploadDataObjectParallel_falls_back_to_serial_witness:
  "UploadDataObjectParallel example_put example_account [''in.dat'' \<mapsto> [1, 2, 3, 4, 5]]
       ''in.dat'' ''/zone/home/rods/in.dat'' [] 0 False []
     = \<lparr>upReturn = Returned None,
        upCalls = [UAcquireConnection,
                   UCreateDataObject 5 ''/zone/home/rods/in.dat'' ''demoResc'' [],
                   UCallback 0 5, UWriteDataObject 5 0 4, UCallback 4 5,
                   UWriteDataObject 5 4 1, UCallback 5 5,
                   UCloseDataObject 5, UReturnConnection (Some 5)],
        upWorkers = []\<rparr> \<and>
   UploadDataObjectParallel example_put example_account [''in.dat'' \<mapsto> []]
       ''in.dat'' ''/zone/home/rods/in.dat'' ''otherResc'' 8 False []
     = \<lparr>upReturn = Returned None,
        upCalls = [UAcquireConnection,
                   UCreateDataObject 5 ''/zone/home/rods/in.dat'' ''otherResc'' [],
                   UCallback 0 0, UCloseDataObject 5, UReturnConnection (Some 5)],
        upWorkers = []\<rparr>"
proof -
  let ?fs1 = "[''in.dat'' \<mapsto> [1, 2, 3, 4, 5::nat]]"
  let ?fs0 = "[''in.dat'' \<mapsto> ([]::nat list)]"
  have h1: "\<not> supportParallelUpload example_put \<or>
           os_Stat (statErr example_put) ?fs1 ''in.dat'' = Inr 0 \<or>
           (\<exists>fileLength. os_Stat (statErr example_put) ?fs1 ''in.dat'' = Inr fileLength \<and>
                         (if (0::int) \<le> 0 then putAutoTasks example_put else 0) = 1) \<or>
           (\<exists>err. os_Stat (statErr example_put) ?fs1 ''in.dat'' = Inl err)"
    by (simp add: example_put_def os_Stat_def)
  have h0: "\<not> supportParallelUpload example_put \<or>
           os_Stat (statErr example_put) ?fs0 ''in.dat'' = Inr 0 \<or>
           (\<exists>fileLength. os_Stat (statErr example_put) ?fs0 ''in.dat'' = Inr fileLength \<and>
                         (if (8::int) \<le> 0 then putAutoTasks example_put else 8) = 1) \<or>
           (\<exists>err. os_Stat (statErr example_put) ?fs0 ''in.dat'' = Inl err)"
    by (simp add: example_put_def os_Stat_def)
  have s1: "UploadDataObject example_put example_account ?fs1 ''in.dat'' ''/zone/home/rods/in.dat'' [] False []
     = \<lparr>upReturn = Returned None,
        upCalls = [UAcquireConnection,
                   UCreateDataObject 5 ''/zone/home/rods/in.dat'' ''demoResc'' [],
                   UCallback 0 5, UWriteDataObject 5 0 4, UCallback 4 5,
                   UWriteDataObject 5 4 1, UCallback 5 5,
                   UCloseDataObject 5, UReturnConnection (Some 5)],
        upWorkers = []\<rparr>"
    by (simp add: UploadDataObject_def example_put_def example_account_def os_Stat_def
          serialCopy.simps os_Read_def callbackCall_def Let_def)
  have s0: "UploadDataObject example_put example_account ?fs0 ''in.dat'' ''/zone/home/rods/in.dat'' ''otherResc'' False []
     = \<lparr>upReturn = Returned None,
        upCalls = [UAcquireConnection,
                   UCreateDataObject 5 ''/zone/home/rods/in.dat'' ''otherResc'' [],
                   UCallback 0 0, UCloseDataObject 5, UReturnConnection (Some 5)],
        upWorkers = []\<rparr>"
    by (simp add: UploadDataObject_def example_put_def example_account_def os_Stat_def
          serialCopy.simps os_Read_def callbackCall_def Let_def)
  show ?thesis
    unfolding UploadDataObjectParallel_falls_back_to_serial[OF h1]
              UploadDataObjectParallel_falls_back_to_serial[OF h0]
    using s1 s0 by (intro conjI)
qed

end
